theory Spec2Isabelle
  imports Complex_Main "HOL-Library.Monad_Syntax"
begin

section \<open>Frame statistics (src/engine/Debug.ts)\<close>

text \<open>
  A TypeScript \<open>number\<close> is modelled as a real: the properties below only copy numbers
  and compare them, so rounding plays no part; NaN and the infinities are left out.

  Objects live in a store. A reference is an index into one of three arenas, one per
  object shape of \<open>Debug.ts\<close>: \<open>IFrameStats\<close>, \<open>IFrameActorStats\<close> and
  \<open>IFrameDurationStats\<close>. Allocation appends to an arena, so a fresh reference is the
  arena's length.
\<close>

type_synonym number = real
type_synonym ref = nat

text \<open>
  The interfaces declare \<open>remaining\<close> and \<open>total\<close> as plain members. The object literals
  of \<open>FrameStats\<close> implement them as getters; any other object that satisfies the
  interface may store them as data.
\<close>

datatype derived = Getter | Stored number

record actor_obj =
  alive :: number
  killed :: number
  ui :: number
  remaining_prop :: derived
  total_prop :: derived

record duration_obj =
  update :: number
  draw :: number
  dtotal_prop :: derived

text \<open>
  An \<open>IFrameStats\<close> object. For an instance of the class \<open>FrameStats\<close> the fields are
  \<open>_id\<close>, \<open>_delta\<close>, \<open>_fps\<close>, \<open>_actorStats\<close> and \<open>_durationStats\<close>, read and written
  through the accessors \<open>id\<close>, \<open>delta\<close>, \<open>fps\<close>, \<open>actors\<close> and \<open>duration\<close>.
\<close>

record frame_obj =
  fid :: number
  delta :: number
  fps :: number
  actorStats :: ref
  durationStats :: ref

record heap =
  frames :: "frame_obj list"
  actor_objs :: "actor_obj list"
  duration_objs :: "duration_obj list"

text \<open>
  Reading or writing a property of an object that is not there is a \<open>TypeError\<close> in
  JavaScript; the model returns \<open>None\<close>.
\<close>

definition deref :: "'a list \<Rightarrow> ref \<Rightarrow> 'a option" where
  "deref xs r = (if r < length xs then Some (xs ! r) else None)"

subsection \<open>Accessors of \<open>FrameStats\<close>\<close>

definition get_id :: "ref \<Rightarrow> heap \<Rightarrow> number option" where
  "get_id r h = map_option fid (deref (frames h) r)"

definition set_id :: "ref \<Rightarrow> number \<Rightarrow> heap \<Rightarrow> heap option" where
  "set_id r v h = map_option (\<lambda>f. h\<lparr>frames := (frames h)[r := f\<lparr>fid := v\<rparr>]\<rparr>) (deref (frames h) r)"

definition get_delta :: "ref \<Rightarrow> heap \<Rightarrow> number option" where
  "get_delta r h = map_option delta (deref (frames h) r)"

definition set_delta :: "ref \<Rightarrow> number \<Rightarrow> heap \<Rightarrow> heap option" where
  "set_delta r v h = map_option (\<lambda>f. h\<lparr>frames := (frames h)[r := f\<lparr>delta := v\<rparr>]\<rparr>) (deref (frames h) r)"

definition get_fps :: "ref \<Rightarrow> heap \<Rightarrow> number option" where
  "get_fps r h = map_option fps (deref (frames h) r)"

definition set_fps :: "ref \<Rightarrow> number \<Rightarrow> heap \<Rightarrow> heap option" where
  "set_fps r v h = map_option (\<lambda>f. h\<lparr>frames := (frames h)[r := f\<lparr>fps := v\<rparr>]\<rparr>) (deref (frames h) r)"

definition get_actors :: "ref \<Rightarrow> heap \<Rightarrow> ref option" where
  "get_actors r h = map_option actorStats (deref (frames h) r)"

definition get_duration :: "ref \<Rightarrow> heap \<Rightarrow> ref option" where
  "get_duration r h = map_option durationStats (deref (frames h) r)"

subsection \<open>Members of the actor and duration records\<close>

definition get_alive :: "ref \<Rightarrow> heap \<Rightarrow> number option" where
  "get_alive a h = map_option alive (deref (actor_objs h) a)"

definition set_alive :: "ref \<Rightarrow> number \<Rightarrow> heap \<Rightarrow> heap option" where
  "set_alive a v h =
     map_option (\<lambda>x. h\<lparr>actor_objs := (actor_objs h)[a := x\<lparr>alive := v\<rparr>]\<rparr>) (deref (actor_objs h) a)"

definition get_killed :: "ref \<Rightarrow> heap \<Rightarrow> number option" where
  "get_killed a h = map_option killed (deref (actor_objs h) a)"

definition set_killed :: "ref \<Rightarrow> number \<Rightarrow> heap \<Rightarrow> heap option" where
  "set_killed a v h =
     map_option (\<lambda>x. h\<lparr>actor_objs := (actor_objs h)[a := x\<lparr>killed := v\<rparr>]\<rparr>) (deref (actor_objs h) a)"

definition get_ui :: "ref \<Rightarrow> heap \<Rightarrow> number option" where
  "get_ui a h = map_option ui (deref (actor_objs h) a)"

definition set_ui :: "ref \<Rightarrow> number \<Rightarrow> heap \<Rightarrow> heap option" where
  "set_ui a v h =
     map_option (\<lambda>x. h\<lparr>actor_objs := (actor_objs h)[a := x\<lparr>ui := v\<rparr>]\<rparr>) (deref (actor_objs h) a)"

text \<open>
  \<open>get remaining() { return this.alive - this.killed; }\<close> and
  \<open>get total() { return this.remaining + this.ui; }\<close>, where \<open>this\<close> is the actor record;
  a stored member is read as it is.
\<close>

definition remaining_of :: "actor_obj \<Rightarrow> number" where
  "remaining_of x = (case remaining_prop x of Getter \<Rightarrow> alive x - killed x | Stored v \<Rightarrow> v)"

definition total_of :: "actor_obj \<Rightarrow> number" where
  "total_of x = (case total_prop x of Getter \<Rightarrow> remaining_of x + ui x | Stored v \<Rightarrow> v)"

definition get_remaining :: "ref \<Rightarrow> heap \<Rightarrow> number option" where
  "get_remaining a h = map_option remaining_of (deref (actor_objs h) a)"

definition get_total :: "ref \<Rightarrow> heap \<Rightarrow> number option" where
  "get_total a h = map_option total_of (deref (actor_objs h) a)"

definition get_update :: "ref \<Rightarrow> heap \<Rightarrow> number option" where
  "get_update d h = map_option update (deref (duration_objs h) d)"

definition set_update :: "ref \<Rightarrow> number \<Rightarrow> heap \<Rightarrow> heap option" where
  "set_update d v h =
     map_option (\<lambda>x. h\<lparr>duration_objs := (duration_objs h)[d := x\<lparr>update := v\<rparr>]\<rparr>)
       (deref (duration_objs h) d)"

definition get_draw :: "ref \<Rightarrow> heap \<Rightarrow> number option" where
  "get_draw d h = map_option draw (deref (duration_objs h) d)"

definition set_draw :: "ref \<Rightarrow> number \<Rightarrow> heap \<Rightarrow> heap option" where
  "set_draw d v h =
     map_option (\<lambda>x. h\<lparr>duration_objs := (duration_objs h)[d := x\<lparr>draw := v\<rparr>]\<rparr>)
       (deref (duration_objs h) d)"

text \<open>\<open>get total() { return this.update + this.draw; }\<close> of the duration record.\<close>

definition dtotal_of :: "duration_obj \<Rightarrow> number" where
  "dtotal_of x = (case dtotal_prop x of Getter \<Rightarrow> update x + draw x | Stored v \<Rightarrow> v)"

definition get_dtotal :: "ref \<Rightarrow> heap \<Rightarrow> number option" where
  "get_dtotal d h = map_option dtotal_of (deref (duration_objs h) d)"

subsection \<open>\<open>new FrameStats()\<close>, \<open>reset\<close> and \<open>clone\<close>\<close>

text \<open>
  The field initialisers of the class: three zeros and two fresh object literals whose
  derived members are getters.
\<close>

definition new_FrameStats :: "heap \<Rightarrow> ref \<times> heap" where
  "new_FrameStats h =
     (length (frames h),
      \<lparr>frames = frames h @
         [\<lparr>fid = 0, delta = 0, fps = 0,
           actorStats = length (actor_objs h), durationStats = length (duration_objs h)\<rparr>],
       actor_objs = actor_objs h @
         [\<lparr>alive = 0, killed = 0, ui = 0, remaining_prop = Getter, total_prop = Getter\<rparr>],
       duration_objs = duration_objs h @ [\<lparr>update = 0, draw = 0, dtotal_prop = Getter\<rparr>]\<rparr>)"

text \<open>
  \<open>reset(otherStats?)\<close>. An absent argument is \<open>None\<close>; every object is truthy. Each
  assignment evaluates the target object, then the right-hand side, then stores. The
  chained assignments of the \<open>else\<close> branch evaluate their targets left to right and
  store right to left.
\<close>

definition reset :: "ref \<Rightarrow> ref option \<Rightarrow> heap \<Rightarrow> heap option" where
  "reset this otherStats h0 =
     (case otherStats of
        Some other \<Rightarrow> do {
          v \<leftarrow> get_id other h0;
          h1 \<leftarrow> set_id this v h0;
          v \<leftarrow> get_delta other h1;
          h2 \<leftarrow> set_delta this v h1;
          v \<leftarrow> get_fps other h2;
          h3 \<leftarrow> set_fps this v h2;
          a \<leftarrow> get_actors this h3;
          oa \<leftarrow> get_actors other h3;
          v \<leftarrow> get_alive oa h3;
          h4 \<leftarrow> set_alive a v h3;
          a \<leftarrow> get_actors this h4;
          oa \<leftarrow> get_actors other h4;
          v \<leftarrow> get_killed oa h4;
          h5 \<leftarrow> set_killed a v h4;
          a \<leftarrow> get_actors this h5;
          oa \<leftarrow> get_actors other h5;
          v \<leftarrow> get_ui oa h5;
          h6 \<leftarrow> set_ui a v h5;
          d \<leftarrow> get_duration this h6;
          od \<leftarrow> get_duration other h6;
          v \<leftarrow> get_update od h6;
          h7 \<leftarrow> set_update d v h6;
          d \<leftarrow> get_duration this h7;
          od \<leftarrow> get_duration other h7;
          v \<leftarrow> get_draw od h7;
          set_draw d v h7
        }
      | None \<Rightarrow> do {
          h1 \<leftarrow> set_fps this 0 h0;
          h2 \<leftarrow> set_delta this 0 h1;
          h3 \<leftarrow> set_id this 0 h2;
          a1 \<leftarrow> get_actors this h3;
          a2 \<leftarrow> get_actors this h3;
          a3 \<leftarrow> get_actors this h3;
          h4 \<leftarrow> set_ui a3 0 h3;
          h5 \<leftarrow> set_killed a2 0 h4;
          h6 \<leftarrow> set_alive a1 0 h5;
          d1 \<leftarrow> get_duration this h6;
          d2 \<leftarrow> get_duration this h6;
          h7 \<leftarrow> set_draw d2 0 h6;
          set_update d1 0 h7
        })"

text \<open>\<open>clone()\<close>: \<open>var fs = new FrameStats(); fs.reset(this); return fs;\<close>\<close>

definition clone :: "ref \<Rightarrow> heap \<Rightarrow> (ref \<times> heap) option" where
  "clone this h =
     (case new_FrameStats h of
        (fs, h1) \<Rightarrow> do { h2 \<leftarrow> reset fs (Some this) h1; Some (fs, h2) })"

subsection \<open>Observations\<close>

text \<open>
  The eight base members and the three derived members of an \<open>IFrameStats\<close> object, read
  through its accessors: \<open>(id, delta, fps, alive, killed, ui, update, draw)\<close> and
  \<open>(actors.remaining, actors.total, duration.total)\<close>.
\<close>

definition base_fields ::
  "ref \<Rightarrow> heap \<Rightarrow> (number \<times> number \<times> number \<times> number \<times> number \<times> number \<times> number \<times> number) option" where
  "base_fields r h = do {
     i \<leftarrow> get_id r h;
     dl \<leftarrow> get_delta r h;
     fp \<leftarrow> get_fps r h;
     a \<leftarrow> get_actors r h;
     al \<leftarrow> get_alive a h;
     ki \<leftarrow> get_killed a h;
     u \<leftarrow> get_ui a h;
     d \<leftarrow> get_duration r h;
     up \<leftarrow> get_update d h;
     dr \<leftarrow> get_draw d h;
     Some (i, dl, fp, al, ki, u, up, dr) }"

definition derived_fields :: "ref \<Rightarrow> heap \<Rightarrow> (number \<times> number \<times> number) option" where
  "derived_fields r h = do {
     a \<leftarrow> get_actors r h;
     re \<leftarrow> get_remaining a h;
     to \<leftarrow> get_total a h;
     d \<leftarrow> get_duration r h;
     dt \<leftarrow> get_dtotal d h;
     Some (re, to, dt) }"

text \<open>
  An object that satisfies the interface \<open>IFrameStats\<close>: it is there, and so are its
  \<open>actors\<close> and \<open>duration\<close> records.
\<close>

definition is_IFrameStats :: "heap \<Rightarrow> ref \<Rightarrow> bool" where
  "is_IFrameStats h r \<longleftrightarrow>
     r < length (frames h) \<and>
     actorStats (frames h ! r) < length (actor_objs h) \<and>
     durationStats (frames h ! r) < length (duration_objs h)"

text \<open>
  An instance of the class \<open>FrameStats\<close>: its two records are the object literals of the
  class, whose derived members are getters.
\<close>

definition is_FrameStats :: "heap \<Rightarrow> ref \<Rightarrow> bool" where
  "is_FrameStats h r \<longleftrightarrow>
     is_IFrameStats h r \<and>
     remaining_prop (actor_objs h ! actorStats (frames h ! r)) = Getter \<and>
     total_prop (actor_objs h ! actorStats (frames h ! r)) = Getter \<and>
     dtotal_prop (duration_objs h ! durationStats (frames h ! r)) = Getter"

subsection \<open>Client operations\<close>

text \<open>
  What a client can do to a \<open>FrameStats\<close> object \<open>r\<close>: the setters \<open>r.id = v\<close>,
  \<open>r.delta = v\<close>, \<open>r.fps = v\<close>, and assignments to the writable members of its records,
  \<open>r.actors.alive = v\<close> up to \<open>r.duration.draw = v\<close>.
\<close>

datatype mutation =
    SetId number | SetDelta number | SetFps number
  | SetAlive number | SetKilled number | SetUi number
  | SetUpdate number | SetDraw number

fun mutate :: "ref \<Rightarrow> mutation \<Rightarrow> heap \<Rightarrow> heap option" where
  "mutate r (SetId v) h = set_id r v h"
| "mutate r (SetDelta v) h = set_delta r v h"
| "mutate r (SetFps v) h = set_fps r v h"
| "mutate r (SetAlive v) h = do { a \<leftarrow> get_actors r h; set_alive a v h }"
| "mutate r (SetKilled v) h = do { a \<leftarrow> get_actors r h; set_killed a v h }"
| "mutate r (SetUi v) h = do { a \<leftarrow> get_actors r h; set_ui a v h }"
| "mutate r (SetUpdate v) h = do { d \<leftarrow> get_duration r h; set_update d v h }"
| "mutate r (SetDraw v) h = do { d \<leftarrow> get_duration r h; set_draw d v h }"

fun mutate_all :: "ref \<Rightarrow> mutation list \<Rightarrow> heap \<Rightarrow> heap option" where
  "mutate_all r [] h = Some h"
| "mutate_all r (m # ms) h = mutate r m h \<bind> mutate_all r ms"

datatype op = Reset ref "ref option" | Clone ref | Mutate ref mutation

fun exec :: "op \<Rightarrow> heap \<Rightarrow> heap option" where
  "exec (Reset r other) h = reset r other h"
| "exec (Clone r) h = map_option snd (clone r h)"
| "exec (Mutate r m) h = mutate r m h"

fun exec_all :: "op list \<Rightarrow> heap \<Rightarrow> heap option" where
  "exec_all [] h = Some h"
| "exec_all (x # xs) h = exec x h \<bind> exec_all xs"

definition separate :: "heap \<Rightarrow> ref \<Rightarrow> ref \<Rightarrow> bool" where
  "separate h r1 r2 \<longleftrightarrow>
     r1 \<noteq> r2 \<and>
     actorStats (frames h ! r1) \<noteq> actorStats (frames h ! r2) \<and>
     durationStats (frames h ! r1) \<noteq> durationStats (frames h ! r2)"


text \<open>
  A store for examples. References 0 and 2 are \<open>FrameStats\<close> instances. References 1 and
  3 are plain object literals that satisfy \<open>IFrameStats\<close>: they agree on the eight base
  members and store derived members that disagree with them and with each other.
\<close>

definition example_heap :: heap where
  "example_heap =
     \<lparr>frames = [\<lparr>fid = 7, delta = 16, fps = 60, actorStats = 0, durationStats = 0\<rparr>,
                \<lparr>fid = 8, delta = 17, fps = 59, actorStats = 1, durationStats = 1\<rparr>,
                \<lparr>fid = 9, delta = 18, fps = 58, actorStats = 2, durationStats = 2\<rparr>,
                \<lparr>fid = 8, delta = 17, fps = 59, actorStats = 3, durationStats = 3\<rparr>],
      actor_objs = [\<lparr>alive = 5, killed = 2, ui = 1, remaining_prop = Getter, total_prop = Getter\<rparr>,
                    \<lparr>alive = 9, killed = 4, ui = 3, remaining_prop = Stored 99, total_prop = Stored 100\<rparr>,
                    \<lparr>alive = 12, killed = 2, ui = 6, remaining_prop = Getter, total_prop = Getter\<rparr>,
                    \<lparr>alive = 9, killed = 4, ui = 3, remaining_prop = Stored 1, total_prop = Stored 2\<rparr>],
      duration_objs = [\<lparr>update = 3, draw = 4, dtotal_prop = Getter\<rparr>,
                       \<lparr>update = 6, draw = 2, dtotal_prop = Stored 50\<rparr>,
                       \<lparr>update = 11, draw = 13, dtotal_prop = Getter\<rparr>,
                       \<lparr>update = 6, draw = 2, dtotal_prop = Stored 3\<rparr>]\<rparr>"

text \<open>
  A store in which the plain \<open>IFrameStats\<close> object at reference 1 has the \<open>actors\<close> and
  \<open>duration\<close> records of the \<open>FrameStats\<close> instance at reference 0 as its own, as the
  literal \<open>{id: 8, delta: 17, fps: 59, actors: fs.actors, duration: fs.duration}\<close> does.
\<close>

definition shared_heap :: heap where
  "shared_heap =
     \<lparr>frames = [\<lparr>fid = 7, delta = 16, fps = 60, actorStats = 0, durationStats = 0\<rparr>,
                \<lparr>fid = 8, delta = 17, fps = 59, actorStats = 0, durationStats = 0\<rparr>],
      actor_objs = [\<lparr>alive = 5, killed = 2, ui = 1, remaining_prop = Getter, total_prop = Getter\<rparr>],
      duration_objs = [\<lparr>update = 3, draw = 4, dtotal_prop = Getter\<rparr>]\<rparr>"

text \<open>A run of client operations on a fresh instance at reference 4 of the example store.\<close>

definition example_ops :: "op list" where
  "example_ops =
     [Mutate 4 (SetAlive 5), Mutate 4 (SetKilled 2), Clone 4, Reset 4 (Some 1),
      Mutate 4 (SetUi 7), Reset 0 None, Mutate 4 (SetDraw 3)]"

section \<open>Textures (src/unnamed/part_000)\<close>

subsection \<open>Collaborators declared outside the source files\<close>

text \<open>
  Modelled from the spec: the class \<open>Promise\<close>, imported from \<open>../Promises\<close>. It is a
  single-resolution container with the states pending, resolved with a value and rejected
  with an error; resolving or rejecting a promise that is not pending is a programming
  error, not a silent no-op.
\<close>

datatype 'a promise = Pending | Resolved 'a | Rejected string

text \<open>
  What a callback can throw: settling a promise that is not pending, and reading a
  property of an object that is not there. A callback that throws is modelled by the
  error alone; no property below looks at the state such a callback leaves behind.
\<close>

datatype error = NotPending | TypeError

definition resolve :: "'a promise \<Rightarrow> 'a \<Rightarrow> error + 'a promise" where
  "resolve p v = (case p of Pending \<Rightarrow> Inr (Resolved v) | _ \<Rightarrow> Inl NotPending)"

definition reject :: "'a promise \<Rightarrow> string \<Rightarrow> error + 'a promise" where
  "reject p e = (case p of Pending \<Rightarrow> Inr (Rejected e) | _ \<Rightarrow> Inl NotPending)"

text \<open>
  Modelled from the spec: the host's image object. After a source is assigned to it, the
  decode-complete event fires once; the natural width and height are readable after this
  event. \<open>decoded\<close> records that the event has fired.
\<close>

record html_image =
  src :: string
  naturalWidth :: nat
  naturalHeight :: nat
  decoded :: bool

definition new_Image :: html_image where
  "new_Image = \<lparr>src = [], naturalWidth = 0, naturalHeight = 0, decoded = False\<rparr>"

text \<open>
  Modelled from the spec: \<open>ManagedSprite\<close>, imported from \<open>../Drawing/Index\<close>. Only its
  constructor call with six arguments is in the source; an argument is an opaque value,
  \<open>null\<close> is \<open>None\<close>.
\<close>

datatype 'v managed_sprite =
  ManagedSprite "'v option" "'v option" "'v option" "'v option" "'v option" "'v option"

text \<open>\<open>String.prototype.indexOf\<close>: the index of the first occurrence, or -1.\<close>

fun indexOf_from :: "int \<Rightarrow> string \<Rightarrow> string \<Rightarrow> int" where
  "indexOf_from i [] pat = (if pat = [] then i else - 1)"
| "indexOf_from i (c # cs) pat =
     (if take (length pat) (c # cs) = pat then i else indexOf_from (i + 1) cs pat)"

definition indexOf :: "string \<Rightarrow> string \<Rightarrow> int" where
  "indexOf s pat = indexOf_from 0 s pat"

subsection \<open>The class \<open>Texture\<close>\<close>

text \<open>
  The fields of a \<open>Texture\<close>; \<open>isLoaded_field\<close> is \<open>_isLoaded\<close>, \<open>sprite\<close> is \<open>_sprite\<close> and
  \<open>sprite_id\<close> is \<open>id\<close>. A field that was never assigned is \<open>None\<close>. \<open>data\<close> is the
  payload kept by the base class \<open>Resource\<close>, which \<open>getData()\<close> returns (modelled from
  the spec: valid only after the fetch succeeded).
\<close>

record 'v texture =
  path :: string
  bustCache :: bool
  sprite_id :: "nat option"
  width :: "nat option"
  height :: "nat option"
  loaded :: "html_image promise"
  isLoaded_field :: bool
  sprite :: "'v managed_sprite"
  image :: "html_image option"
  data :: "string option"

text \<open>The field initialisers, then the constructor body.\<close>

definition Texture :: "string \<Rightarrow> bool \<Rightarrow> 'v texture" where
  "Texture p b =
     \<lparr>path = p, bustCache = b, sprite_id = None, width = None, height = None,
      loaded = Pending, isLoaded_field = False,
      sprite = ManagedSprite None None None None None None,
      image = None, data = None\<rparr>"

definition isLoaded :: "'v texture \<Rightarrow> bool" where
  "isLoaded t = isLoaded_field t"

definition asSprite :: "'v texture \<Rightarrow> 'v managed_sprite" where
  "asSprite t = sprite t"

subsection \<open>\<open>load()\<close> and its callbacks\<close>

text \<open>
  \<open>load()\<close> returns at once; the rest of its work is done by the callbacks it registers.
  A pipeline is the state one call of \<open>load()\<close> leaves behind: the texture, the promise
  \<open>complete\<close> that the call returned, the static \<open>Texture.manager\<close>, the state of the
  fetch started by \<open>super.load()\<close> with its two \<open>then\<close> callbacks, and the listener
  registered for the \<open>load\<close> event of \<open>this.image\<close>.
\<close>

datatype listener = InlineOnLoad | FetchedOnLoad

datatype fetch_state = NoFetch | InFlight | Succeeded | Failed

record ('v, 'm) pipeline =
  tex :: "'v texture"
  complete :: "html_image promise"
  manager :: 'm
  fetch :: fetch_state
  onload :: "listener option"

text \<open>
  \<open>Texture.manager.loadIntoAtlas\<close> is declared outside the source files, so it is a
  parameter: from the manager's state and the texture it gives the sprite and the
  manager's new state.
\<close>

type_synonym ('v, 'm) atlas = "'m \<Rightarrow> 'v texture \<Rightarrow> 'v managed_sprite \<times> 'm"

definition load :: "'m \<Rightarrow> 'v texture \<Rightarrow> ('v, 'm) pipeline" where
  "load mgr t =
     (if indexOf (path t) ''data:image/'' > - 1 then
        \<lparr>tex = t\<lparr>image := Some (new_Image\<lparr>src := path t\<rparr>)\<rparr>,
         complete = Pending, manager = mgr, fetch = NoFetch, onload = Some InlineOnLoad\<rparr>
      else
        \<lparr>tex = t, complete = Pending, manager = mgr, fetch = InFlight, onload = None\<rparr>)"

text \<open>The listener of the data-URI branch (lines 65 to 73).\<close>

definition inline_onload ::
  "('v, 'm) atlas \<Rightarrow> ('v, 'm) pipeline \<Rightarrow> error + ('v, 'm) pipeline" where
  "inline_onload loadIntoAtlas s =
     (case image (tex s) of
        None \<Rightarrow> Inl TypeError
      | Some img \<Rightarrow>
          (let t1 = (tex s)\<lparr>width := Some (naturalWidth img)\<rparr>;
               t2 = t1\<lparr>height := Some (naturalHeight img)\<rparr>;
               (spr, mgr) = loadIntoAtlas (manager s) t2;
               t3 = t2\<lparr>sprite := spr\<rparr>
           in (case resolve (loaded t3) img of
                 Inl e \<Rightarrow> Inl e
               | Inr l \<Rightarrow>
                   (case resolve (complete s) img of
                      Inl e \<Rightarrow> Inl e
                    | Inr c \<Rightarrow>
                        Inr (s\<lparr>tex := t3\<lparr>loaded := l\<rparr>, complete := c, manager := mgr\<rparr>)))))"

text \<open>The listener of the fetched branch (lines 80 to 87).\<close>

definition fetched_onload :: "('v, 'm) pipeline \<Rightarrow> error + ('v, 'm) pipeline" where
  "fetched_onload s =
     (let t1 = (tex s)\<lparr>isLoaded_field := True\<rparr>
      in (case image t1 of
            None \<Rightarrow> Inl TypeError
          | Some img \<Rightarrow>
              (let t2 = t1\<lparr>width := Some (naturalWidth img)\<rparr>;
                   t3 = t2\<lparr>height := Some (naturalHeight img)\<rparr>
               in (case resolve (loaded t3) img of
                     Inl e \<Rightarrow> Inl e
                   | Inr l \<Rightarrow>
                       (case resolve (complete s) img of
                          Inl e \<Rightarrow> Inl e
                        | Inr c \<Rightarrow> Inr (s\<lparr>tex := t3\<lparr>loaded := l\<rparr>, complete := c\<rparr>))))))"

text \<open>
  The two callbacks passed to \<open>loaded.then\<close> (lines 78 to 92). On success
  \<open>super.getData()\<close> is the payload the fetch stored.
\<close>

definition on_fetched :: "('v, 'm) pipeline \<Rightarrow> error + ('v, 'm) pipeline" where
  "on_fetched s =
     (case data (tex s) of
        None \<Rightarrow> Inl TypeError
      | Some d \<Rightarrow>
          Inr (s\<lparr>tex := (tex s)\<lparr>image := Some (new_Image\<lparr>src := d\<rparr>)\<rparr>,
                 onload := Some FetchedOnLoad\<rparr>))"

definition on_fetch_failed :: "('v, 'm) pipeline \<Rightarrow> error + ('v, 'm) pipeline" where
  "on_fetch_failed s =
     (case reject (complete s) ''Error loading texture.'' of
        Inl e \<Rightarrow> Inl e
      | Inr c \<Rightarrow> Inr (s\<lparr>complete := c\<rparr>))"

subsection \<open>The host's events\<close>

text \<open>
  Modelled from the spec: the fetch of \<open>Resource\<close> settles once, with the payload or with
  a failure, and the decode-complete event of an image fires once, when the natural
  dimensions are known. An event that nothing is waiting for is not delivered: the state
  stays as it is.
\<close>

datatype event = FetchSucceeded string | FetchFailed | DecodeComplete nat nat

fun deliver ::
  "('v, 'm) atlas \<Rightarrow> event \<Rightarrow> ('v, 'm) pipeline \<Rightarrow> error + ('v, 'm) pipeline" where
  "deliver loadIntoAtlas (FetchSucceeded d) s =
     (if fetch s = InFlight
      then on_fetched (s\<lparr>fetch := Succeeded, tex := (tex s)\<lparr>data := Some d\<rparr>\<rparr>)
      else Inr s)"
| "deliver loadIntoAtlas FetchFailed s =
     (if fetch s = InFlight then on_fetch_failed (s\<lparr>fetch := Failed\<rparr>) else Inr s)"
| "deliver loadIntoAtlas (DecodeComplete w h) s =
     (case image (tex s) of
        None \<Rightarrow> Inr s
      | Some img \<Rightarrow>
          (if decoded img then Inr s
           else
             let s1 = s\<lparr>tex := (tex s)\<lparr>image :=
                        Some (img\<lparr>naturalWidth := w, naturalHeight := h, decoded := True\<rparr>)\<rparr>\<rparr>
             in (case onload s1 of
                   None \<Rightarrow> Inr s1
                 | Some InlineOnLoad \<Rightarrow> inline_onload loadIntoAtlas s1
                 | Some FetchedOnLoad \<Rightarrow> fetched_onload s1)))"

fun run ::
  "('v, 'm) atlas \<Rightarrow> event list \<Rightarrow> ('v, 'm) pipeline \<Rightarrow> error + ('v, 'm) pipeline" where
  "run loadIntoAtlas [] s = Inr s"
| "run loadIntoAtlas (e # es) s =
     (case deliver loadIntoAtlas e s of
        Inl x \<Rightarrow> Inl x
      | Inr s' \<Rightarrow> run loadIntoAtlas es s')"

text \<open>
  An atlas manager for examples: its state counts the calls of \<open>loadIntoAtlas\<close>, and the
  sprite it returns carries the number of the call.
\<close>

definition example_atlas :: "(nat, nat) atlas" where
  "example_atlas n t = (ManagedSprite (Some n) (width t) (height t) None None None, Suc n)"

subsection \<open>The states of the load pipeline\<close>

text \<open>Nothing has been recorded yet: both promises are pending and the texture is as built.\<close>

definition untouched :: "('v, 'm) pipeline \<Rightarrow> bool" where
  "untouched s \<longleftrightarrow>
     complete s = Pending \<and> loaded (tex s) = Pending \<and>
     width (tex s) = None \<and> height (tex s) = None \<and> \<not> isLoaded_field (tex s) \<and>
     sprite (tex s) = ManagedSprite None None None None None None"

text \<open>
  The states a pipeline goes through, by branch: decoding and ready on the data-URI
  branch; fetching, decoding, ready and failed on the fetched branch.
\<close>

definition pipeline_inv :: "('v, 'm) pipeline \<Rightarrow> bool" where
  "pipeline_inv s \<longleftrightarrow>
     (case fetch s of
        NoFetch \<Rightarrow>
          onload s = Some InlineOnLoad \<and>
          (case image (tex s) of
             None \<Rightarrow> False
           | Some img \<Rightarrow>
               if decoded img
               then complete s = Resolved img \<and> loaded (tex s) = Resolved img \<and>
                    width (tex s) = Some (naturalWidth img) \<and>
                    height (tex s) = Some (naturalHeight img) \<and> \<not> isLoaded_field (tex s)
               else untouched s)
      | InFlight \<Rightarrow> onload s = None \<and> image (tex s) = None \<and> untouched s
      | Succeeded \<Rightarrow>
          onload s = Some FetchedOnLoad \<and>
          (case image (tex s) of
             None \<Rightarrow> False
           | Some img \<Rightarrow>
               if decoded img
               then complete s = Resolved img \<and> loaded (tex s) = Resolved img \<and>
                    width (tex s) = Some (naturalWidth img) \<and>
                    height (tex s) = Some (naturalHeight img) \<and> isLoaded_field (tex s) \<and>
                    sprite (tex s) = ManagedSprite None None None None None None
               else untouched s)
      | Failed \<Rightarrow>
          onload s = None \<and> image (tex s) = None \<and>
          complete s = Rejected ''Error loading texture.'' \<and> loaded (tex s) = Pending \<and>
          width (tex s) = None \<and> height (tex s) = None \<and> \<not> isLoaded_field (tex s) \<and>
          sprite (tex s) = ManagedSprite None None None None None None)"

section \<open>Properties of the frame statistics\<close>

lemmas accessor_defs =
  deref_def get_id_def set_id_def get_delta_def set_delta_def get_fps_def set_fps_def
  get_actors_def get_duration_def get_alive_def set_alive_def get_killed_def set_killed_def
  get_ui_def set_ui_def get_update_def set_update_def get_draw_def set_draw_def
  get_remaining_def get_total_def get_dtotal_def

lemma reset_zero_eq:
  assumes "is_IFrameStats h this"
  shows "reset this None h =
    Some (h\<lparr>frames := (frames h)[this := (frames h ! this)\<lparr>fps := 0, delta := 0, fid := 0\<rparr>],
           actor_objs := (actor_objs h)[actorStats (frames h ! this) :=
             (actor_objs h ! actorStats (frames h ! this))\<lparr>ui := 0, killed := 0, alive := 0\<rparr>],
           duration_objs := (duration_objs h)[durationStats (frames h ! this) :=
             (duration_objs h ! durationStats (frames h ! this))\<lparr>draw := 0, update := 0\<rparr>]\<rparr>)"
  using assms by (simp add: reset_def is_IFrameStats_def accessor_defs)

lemma reset_copy_eq:
  assumes "is_IFrameStats h this" and "is_IFrameStats h other"
  shows "reset this (Some other) h =
    Some (h\<lparr>frames := (frames h)[this := (frames h ! this)
             \<lparr>fid := fid (frames h ! other), delta := delta (frames h ! other),
              fps := fps (frames h ! other)\<rparr>],
           actor_objs := (actor_objs h)[actorStats (frames h ! this) :=
             (actor_objs h ! actorStats (frames h ! this))
             \<lparr>alive := alive (actor_objs h ! actorStats (frames h ! other)),
              killed := killed (actor_objs h ! actorStats (frames h ! other)),
              ui := ui (actor_objs h ! actorStats (frames h ! other))\<rparr>],
           duration_objs := (duration_objs h)[durationStats (frames h ! this) :=
             (duration_objs h ! durationStats (frames h ! this))
             \<lparr>update := update (duration_objs h ! durationStats (frames h ! other)),
              draw := draw (duration_objs h ! durationStats (frames h ! other))\<rparr>]\<rparr>)"
  using assms by (simp add: reset_def is_IFrameStats_def accessor_defs nth_list_update)

lemma base_fields_eq:
  "is_IFrameStats h r \<Longrightarrow> base_fields r h =
     Some (fid (frames h ! r), delta (frames h ! r), fps (frames h ! r),
           alive (actor_objs h ! actorStats (frames h ! r)),
           killed (actor_objs h ! actorStats (frames h ! r)),
           ui (actor_objs h ! actorStats (frames h ! r)),
           update (duration_objs h ! durationStats (frames h ! r)),
           draw (duration_objs h ! durationStats (frames h ! r)))"
  by (simp add: base_fields_def is_IFrameStats_def accessor_defs)

lemma derived_fields_eq:
  "is_IFrameStats h r \<Longrightarrow> derived_fields r h =
     Some (remaining_of (actor_objs h ! actorStats (frames h ! r)),
           total_of (actor_objs h ! actorStats (frames h ! r)),
           dtotal_of (duration_objs h ! durationStats (frames h ! r)))"
  by (simp add: derived_fields_def is_IFrameStats_def accessor_defs)

lemma derived_fields_FrameStats:
  "is_FrameStats h r \<Longrightarrow> derived_fields r h =
     Some (alive (actor_objs h ! actorStats (frames h ! r)) - killed (actor_objs h ! actorStats (frames h ! r)),
           alive (actor_objs h ! actorStats (frames h ! r)) - killed (actor_objs h ! actorStats (frames h ! r))
             + ui (actor_objs h ! actorStats (frames h ! r)),
           update (duration_objs h ! durationStats (frames h ! r))
             + draw (duration_objs h ! durationStats (frames h ! r)))"
  by (simp add: derived_fields_eq is_FrameStats_def remaining_of_def total_of_def dtotal_of_def)

lemma reset_zero_FrameStats:
  "is_FrameStats h this \<Longrightarrow> reset this None h = Some h' \<Longrightarrow> is_FrameStats h' this"
  by (auto simp: reset_zero_eq is_FrameStats_def is_IFrameStats_def)

text \<open>
  C6. For every \<open>FrameStats\<close> instance, in any state, \<open>reset()\<close> without an argument
  succeeds and leaves the eight base members \<open>id\<close>, \<open>delta\<close>, \<open>fps\<close>, \<open>actors.alive\<close>,
  \<open>actors.killed\<close>, \<open>actors.ui\<close>, \<open>duration.update\<close> and \<open>duration.draw\<close> at 0; the derived
  members \<open>actors.remaining\<close>, \<open>actors.total\<close> and \<open>duration.total\<close> then read 0.
\<close>

theorem reset_no_argument_zeroes:
  assumes "is_FrameStats h this"
  shows "reset this None h \<bind> base_fields this = Some (0, 0, 0, 0, 0, 0, 0, 0)
       \<and> reset this None h \<bind> derived_fields this = Some (0, 0, 0)"
proof -
  from assms have wf: "is_IFrameStats h this" by (simp add: is_FrameStats_def)
  obtain h' where h': "reset this None h = Some h'" by (simp add: reset_zero_eq [OF wf])
  with assms have fs: "is_FrameStats h' this" by (rule reset_zero_FrameStats)
  then have wf': "is_IFrameStats h' this" by (simp add: is_FrameStats_def)
  have "base_fields this h' = Some (0, 0, 0, 0, 0, 0, 0, 0)"
    using h' wf by (simp add: base_fields_eq [OF wf'] reset_zero_eq [OF wf]) (auto simp: is_IFrameStats_def)
  moreover have "derived_fields this h' = Some (0, 0, 0)"
    using h' wf by (simp add: derived_fields_FrameStats [OF fs] reset_zero_eq [OF wf]) (auto simp: is_IFrameStats_def)
  ultimately show ?thesis by (simp add: h')
qed

text \<open>The instance at reference 0 of the example store, whose members are all non-zero.\<close>

theorem reset_no_argument_zeroes_witness:
  "is_FrameStats example_heap 0
   \<and> reset 0 None example_heap \<bind> base_fields 0 = Some (0, 0, 0, 0, 0, 0, 0, 0)
   \<and> reset 0 None example_heap \<bind> derived_fields 0 = Some (0, 0, 0)"
proof -
  have fs: "is_FrameStats example_heap 0"
    by (simp add: is_FrameStats_def is_IFrameStats_def example_heap_def)
  show ?thesis using fs reset_no_argument_zeroes [OF fs] by simp
qed

lemma reset_zero_None:
  "\<not> is_IFrameStats h this \<Longrightarrow> reset this None h = None"
  by (auto simp: reset_def is_IFrameStats_def accessor_defs)

lemma reset_copy_None_this:
  "\<not> is_IFrameStats h this \<Longrightarrow> reset this (Some other) h = None"
  by (auto simp: reset_def is_IFrameStats_def accessor_defs nth_list_update split: Option.bind_splits)

lemma reset_copy_None_other:
  "\<not> is_IFrameStats h other \<Longrightarrow> reset this (Some other) h = None"
  by (auto simp: reset_def is_IFrameStats_def accessor_defs nth_list_update split: Option.bind_splits)

lemma reset_Some_this:
  assumes "reset this other h = Some h'"
  shows "is_IFrameStats h this"
proof (rule ccontr)
  assume "\<not> is_IFrameStats h this"
  then have "reset this other h = None"
    by (cases other) (simp_all add: reset_zero_None reset_copy_None_this)
  with assms show False by simp
qed

lemma reset_Some_other:
  assumes "reset this (Some other) h = Some h'"
  shows "is_IFrameStats h other"
proof (rule ccontr)
  assume "\<not> is_IFrameStats h other"
  then have "reset this (Some other) h = None" by (rule reset_copy_None_other)
  with assms show False by simp
qed

lemma reset_FrameStats:
  assumes "is_FrameStats h q" and "reset this other h = Some h'"
  shows "is_FrameStats h' q"
proof (cases other)
  case None
  from assms(2) have wf: "is_IFrameStats h this" by (rule reset_Some_this)
  from assms None wf show ?thesis
    by (auto simp: reset_zero_eq [OF wf] is_FrameStats_def is_IFrameStats_def nth_list_update)
next
  case (Some x)
  from assms(2) have wf: "is_IFrameStats h this" by (rule reset_Some_this)
  from assms(2) Some have wfo: "is_IFrameStats h x" by (auto intro: reset_Some_other)
  from assms Some wf wfo show ?thesis
    by (auto simp: reset_copy_eq [OF wf wfo] is_FrameStats_def is_IFrameStats_def nth_list_update)
qed

lemma mutate_FrameStats:
  assumes "is_FrameStats h q" and "mutate r m h = Some h'"
  shows "is_FrameStats h' q"
  using assms
  by (cases m)
     (auto simp: accessor_defs is_FrameStats_def is_IFrameStats_def nth_list_update
           split: if_splits Option.bind_splits)

lemma new_FrameStats_old:
  assumes "is_FrameStats h q"
  shows "is_FrameStats (snd (new_FrameStats h)) q"
  using assms by (auto simp: new_FrameStats_def is_FrameStats_def is_IFrameStats_def nth_append)

lemma new_FrameStats_fresh: "is_FrameStats (snd (new_FrameStats h)) (fst (new_FrameStats h))"
  by (simp add: new_FrameStats_def is_FrameStats_def is_IFrameStats_def)

lemma clone_FrameStats:
  assumes "is_FrameStats h q" and "clone r h = Some (c, h')"
  shows "is_FrameStats h' q"
  using assms new_FrameStats_old [OF assms(1)]
  by (auto simp: clone_def split: prod.splits Option.bind_splits dest: reset_FrameStats)

lemma exec_FrameStats:
  assumes "is_FrameStats h q" and "exec x h = Some h'"
  shows "is_FrameStats h' q"
  using assms
  by (cases x) (auto dest: reset_FrameStats mutate_FrameStats clone_FrameStats)

lemma exec_all_FrameStats:
  "is_FrameStats h q \<Longrightarrow> exec_all xs h = Some h' \<Longrightarrow> is_FrameStats h' q"
proof (induction xs arbitrary: h)
  case Nil
  then show ?case by simp
next
  case (Cons x xs)
  then show ?case by (auto split: Option.bind_splits dest: exec_FrameStats)
qed

text \<open>
  C9. Take any \<open>FrameStats\<close> instance, as \<open>new FrameStats()\<close> creates it in any store, and
  any sequence of \<open>reset\<close>, \<open>clone\<close> and member assignments on it or on other objects
  that runs without a \<open>TypeError\<close>. Afterwards the derived members read what the getters
  compute from the stored base members: \<open>actors.remaining = actors.alive - actors.killed\<close>,
  \<open>actors.total = actors.remaining + actors.ui\<close> and
  \<open>duration.total = duration.update + duration.draw\<close>.
\<close>

theorem derived_always_computed:
  assumes "new_FrameStats h = (r, h1)" and "exec_all ops h1 = Some h'"
  shows "\<exists>i dl fp al ki u up dr.
           base_fields r h' = Some (i, dl, fp, al, ki, u, up, dr) \<and>
           derived_fields r h' = Some (al - ki, al - ki + u, up + dr)"
proof -
  from assms(1) have "is_FrameStats h1 r"
    using new_FrameStats_fresh [of h] by simp
  with assms(2) have fs: "is_FrameStats h' r" by (rule exec_all_FrameStats [rotated])
  then have wf: "is_IFrameStats h' r" by (simp add: is_FrameStats_def)
  show ?thesis
    by (simp add: base_fields_eq [OF wf] derived_fields_FrameStats [OF fs])
qed

lemma is_FrameStats_wf: "is_FrameStats h r \<Longrightarrow> is_IFrameStats h r"
  by (simp add: is_FrameStats_def)

lemma mutate_frame_rule:
  assumes "mutate r m h = Some h'"
  shows "r < length (frames h) \<and>
         length (frames h') = length (frames h) \<and>
         length (actor_objs h') = length (actor_objs h) \<and>
         length (duration_objs h') = length (duration_objs h) \<and>
         (\<forall>q. actorStats (frames h' ! q) = actorStats (frames h ! q)) \<and>
         (\<forall>q. durationStats (frames h' ! q) = durationStats (frames h ! q)) \<and>
         (\<forall>q. q \<noteq> r \<longrightarrow> frames h' ! q = frames h ! q) \<and>
         (\<forall>a. a \<noteq> actorStats (frames h ! r) \<longrightarrow> actor_objs h' ! a = actor_objs h ! a) \<and>
         (\<forall>d. d \<noteq> durationStats (frames h ! r) \<longrightarrow> duration_objs h' ! d = duration_objs h ! d)"
proof (cases m)
  case (SetId v)
  with assms show ?thesis
    by (auto simp: set_id_def deref_def nth_list_update split: if_splits)
next
  case (SetDelta v)
  with assms show ?thesis
    by (auto simp: set_delta_def deref_def nth_list_update split: if_splits)
next
  case (SetFps v)
  with assms show ?thesis
    by (auto simp: set_fps_def deref_def nth_list_update split: if_splits)
next
  case (SetAlive v)
  with assms show ?thesis
    by (auto simp: get_actors_def set_alive_def deref_def split: if_splits Option.bind_splits)
next
  case (SetKilled v)
  with assms show ?thesis
    by (auto simp: get_actors_def set_killed_def deref_def split: if_splits Option.bind_splits)
next
  case (SetUi v)
  with assms show ?thesis
    by (auto simp: get_actors_def set_ui_def deref_def split: if_splits Option.bind_splits)
next
  case (SetUpdate v)
  with assms show ?thesis
    by (auto simp: get_duration_def set_update_def deref_def split: if_splits Option.bind_splits)
next
  case (SetDraw v)
  with assms show ?thesis
    by (auto simp: get_duration_def set_draw_def deref_def split: if_splits Option.bind_splits)
qed

lemma reset_copy_ex:
  assumes "is_IFrameStats h this" and "is_IFrameStats h other"
  shows "\<exists>h'. reset this (Some other) h = Some h' \<and>
     frames h' = (frames h)[this := (frames h ! this)
             \<lparr>fid := fid (frames h ! other), delta := delta (frames h ! other),
              fps := fps (frames h ! other)\<rparr>] \<and>
     actor_objs h' = (actor_objs h)[actorStats (frames h ! this) :=
             (actor_objs h ! actorStats (frames h ! this))
             \<lparr>alive := alive (actor_objs h ! actorStats (frames h ! other)),
              killed := killed (actor_objs h ! actorStats (frames h ! other)),
              ui := ui (actor_objs h ! actorStats (frames h ! other))\<rparr>] \<and>
     duration_objs h' = (duration_objs h)[durationStats (frames h ! this) :=
             (duration_objs h ! durationStats (frames h ! this))
             \<lparr>update := update (duration_objs h ! durationStats (frames h ! other)),
              draw := draw (duration_objs h ! durationStats (frames h ! other))\<rparr>]"
  by (simp add: reset_copy_eq [OF assms])

lemma reset_copy_arenas:
  assumes "is_IFrameStats h this" and "is_IFrameStats h other"
    and "reset this (Some other) h = Some h'"
  shows "frames h' = (frames h)[this := (frames h ! this)
             \<lparr>fid := fid (frames h ! other), delta := delta (frames h ! other),
              fps := fps (frames h ! other)\<rparr>]"
    and "actor_objs h' = (actor_objs h)[actorStats (frames h ! this) :=
             (actor_objs h ! actorStats (frames h ! this))
             \<lparr>alive := alive (actor_objs h ! actorStats (frames h ! other)),
              killed := killed (actor_objs h ! actorStats (frames h ! other)),
              ui := ui (actor_objs h ! actorStats (frames h ! other))\<rparr>]"
    and "duration_objs h' = (duration_objs h)[durationStats (frames h ! this) :=
             (duration_objs h ! durationStats (frames h ! this))
             \<lparr>update := update (duration_objs h ! durationStats (frames h ! other)),
              draw := draw (duration_objs h ! durationStats (frames h ! other))\<rparr>]"
proof -
  from reset_copy_ex [OF assms(1,2)] obtain h2 where
    h2: "reset this (Some other) h = Some h2"
      "frames h2 = (frames h)[this := (frames h ! this)
             \<lparr>fid := fid (frames h ! other), delta := delta (frames h ! other),
              fps := fps (frames h ! other)\<rparr>]"
      "actor_objs h2 = (actor_objs h)[actorStats (frames h ! this) :=
             (actor_objs h ! actorStats (frames h ! this))
             \<lparr>alive := alive (actor_objs h ! actorStats (frames h ! other)),
              killed := killed (actor_objs h ! actorStats (frames h ! other)),
              ui := ui (actor_objs h ! actorStats (frames h ! other))\<rparr>]"
      "duration_objs h2 = (duration_objs h)[durationStats (frames h ! this) :=
             (duration_objs h ! durationStats (frames h ! this))
             \<lparr>update := update (duration_objs h ! durationStats (frames h ! other)),
              draw := draw (duration_objs h ! durationStats (frames h ! other))\<rparr>]"
    by blast
  from h2(1) assms(3) have eq: "h2 = h'" by simp
  show "frames h' = (frames h)[this := (frames h ! this)
             \<lparr>fid := fid (frames h ! other), delta := delta (frames h ! other),
              fps := fps (frames h ! other)\<rparr>]"
    using h2(2) unfolding eq .
  show "actor_objs h' = (actor_objs h)[actorStats (frames h ! this) :=
             (actor_objs h ! actorStats (frames h ! this))
             \<lparr>alive := alive (actor_objs h ! actorStats (frames h ! other)),
              killed := killed (actor_objs h ! actorStats (frames h ! other)),
              ui := ui (actor_objs h ! actorStats (frames h ! other))\<rparr>]"
    using h2(3) unfolding eq .
  show "duration_objs h' = (duration_objs h)[durationStats (frames h ! this) :=
             (duration_objs h ! durationStats (frames h ! this))
             \<lparr>update := update (duration_objs h ! durationStats (frames h ! other)),
              draw := draw (duration_objs h ! durationStats (frames h ! other))\<rparr>]"
    using h2(4) unfolding eq .
qed

lemma reset_zero_ex:
  assumes "is_IFrameStats h this"
  shows "\<exists>h'. reset this None h = Some h' \<and>
     frames h' = (frames h)[this := (frames h ! this)\<lparr>fps := 0, delta := 0, fid := 0\<rparr>] \<and>
     actor_objs h' = (actor_objs h)[actorStats (frames h ! this) :=
             (actor_objs h ! actorStats (frames h ! this))\<lparr>ui := 0, killed := 0, alive := 0\<rparr>] \<and>
     duration_objs h' = (duration_objs h)[durationStats (frames h ! this) :=
             (duration_objs h ! durationStats (frames h ! this))\<lparr>draw := 0, update := 0\<rparr>]"
  by (simp add: reset_zero_eq [OF assms])

lemma reset_zero_arenas:
  assumes "is_IFrameStats h this" and "reset this None h = Some h'"
  shows "frames h' = (frames h)[this := (frames h ! this)\<lparr>fps := 0, delta := 0, fid := 0\<rparr>]"
    and "actor_objs h' = (actor_objs h)[actorStats (frames h ! this) :=
             (actor_objs h ! actorStats (frames h ! this))\<lparr>ui := 0, killed := 0, alive := 0\<rparr>]"
    and "duration_objs h' = (duration_objs h)[durationStats (frames h ! this) :=
             (duration_objs h ! durationStats (frames h ! this))\<lparr>draw := 0, update := 0\<rparr>]"
proof -
  from reset_zero_ex [OF assms(1)] obtain h2 where
    h2: "reset this None h = Some h2"
      "frames h2 = (frames h)[this := (frames h ! this)\<lparr>fps := 0, delta := 0, fid := 0\<rparr>]"
      "actor_objs h2 = (actor_objs h)[actorStats (frames h ! this) :=
             (actor_objs h ! actorStats (frames h ! this))\<lparr>ui := 0, killed := 0, alive := 0\<rparr>]"
      "duration_objs h2 = (duration_objs h)[durationStats (frames h ! this) :=
             (duration_objs h ! durationStats (frames h ! this))\<lparr>draw := 0, update := 0\<rparr>]"
    by blast
  from h2(1) assms(2) have eq: "h2 = h'" by simp
  show "frames h' = (frames h)[this := (frames h ! this)\<lparr>fps := 0, delta := 0, fid := 0\<rparr>]"
    using h2(2) unfolding eq .
  show "actor_objs h' = (actor_objs h)[actorStats (frames h ! this) :=
             (actor_objs h ! actorStats (frames h ! this))\<lparr>ui := 0, killed := 0, alive := 0\<rparr>]"
    using h2(3) unfolding eq .
  show "duration_objs h' = (duration_objs h)[durationStats (frames h ! this) :=
             (duration_objs h ! durationStats (frames h ! this))\<lparr>draw := 0, update := 0\<rparr>]"
    using h2(4) unfolding eq .
qed

lemma reset_copy_wf:
  assumes "is_IFrameStats h this" and "is_IFrameStats h other"
    and "reset this (Some other) h = Some h'"
  shows "is_IFrameStats h' q = is_IFrameStats h q"
  using assms(1)
  by (simp add: reset_copy_arenas [OF assms] is_IFrameStats_def nth_list_update)

lemma reset_copy_base_this:
  assumes "is_IFrameStats h this" and "is_IFrameStats h other"
    and "reset this (Some other) h = Some h'"
  shows "base_fields this h' = base_fields other h"
proof -
  from assms(1) have wf': "is_IFrameStats h' this" by (simp add: reset_copy_wf [OF assms])
  show ?thesis
    unfolding base_fields_eq [OF wf'] base_fields_eq [OF assms(2)]
    using assms(1) by (simp add: reset_copy_arenas [OF assms] is_IFrameStats_def)
qed

lemma reset_copy_base_other:
  assumes "is_IFrameStats h this" and "is_IFrameStats h other"
    and "reset this (Some other) h = Some h'"
  shows "base_fields other h' = base_fields other h"
proof -
  from assms(2) have wf': "is_IFrameStats h' other" by (simp add: reset_copy_wf [OF assms])
  show ?thesis
    unfolding base_fields_eq [OF wf'] base_fields_eq [OF assms(2)]
    using assms(1,2) by (simp add: reset_copy_arenas [OF assms] is_IFrameStats_def nth_list_update)
qed

lemma reset_copy_derived_other:
  assumes "is_IFrameStats h this" and "is_IFrameStats h other"
    and "reset this (Some other) h = Some h'"
  shows "derived_fields other h' = derived_fields other h"
proof -
  from assms(2) have wf': "is_IFrameStats h' other" by (simp add: reset_copy_wf [OF assms])
  show ?thesis
    unfolding derived_fields_eq [OF wf'] derived_fields_eq [OF assms(2)]
    using assms(1,2)
    by (auto simp add: reset_copy_arenas [OF assms] is_IFrameStats_def nth_list_update
          remaining_of_def total_of_def dtotal_of_def split: derived.splits)
qed

lemma reset_copy_separate:
  assumes "is_IFrameStats h this" and "is_IFrameStats h other"
    and "reset this (Some other) h = Some h'"
  shows "separate h' x y = separate h x y"
  using assms(1)
  by (simp add: reset_copy_arenas [OF assms] is_IFrameStats_def separate_def nth_list_update)

lemma derived_from_base:
  assumes "is_FrameStats h r" and "base_fields r h = Some (i, dl, fp, al, ki, u, up, dr)"
  shows "derived_fields r h = Some (al - ki, al - ki + u, up + dr)"
  using assms(2)
  by (simp add: derived_fields_FrameStats [OF assms(1)]
        base_fields_eq [OF is_FrameStats_wf [OF assms(1)]])

lemma mutate_wf:
  assumes "mutate r m h = Some h'"
  shows "is_IFrameStats h' q = is_IFrameStats h q"
  using mutate_frame_rule [OF assms] by (simp add: is_IFrameStats_def)

lemma mutate_separate:
  assumes "mutate r m h = Some h'"
  shows "separate h' x y = separate h x y"
  using mutate_frame_rule [OF assms] by (simp add: separate_def)

lemma mutate_other:
  assumes "separate h r q" and "is_IFrameStats h q" and "mutate r m h = Some h'"
  shows "base_fields q h' = base_fields q h \<and> derived_fields q h' = derived_fields q h"
proof -
  from assms(2) have wf': "is_IFrameStats h' q" by (simp add: mutate_wf [OF assms(3)])
  from assms(1) have ne: "q \<noteq> r" "actorStats (frames h ! q) \<noteq> actorStats (frames h ! r)"
    "durationStats (frames h ! q) \<noteq> durationStats (frames h ! r)"
    by (auto simp: separate_def)
  show ?thesis
    unfolding base_fields_eq [OF wf'] base_fields_eq [OF assms(2)]
      derived_fields_eq [OF wf'] derived_fields_eq [OF assms(2)]
    using mutate_frame_rule [OF assms(3)] ne by simp
qed

lemma mutate_all_other:
  "separate h r q \<Longrightarrow> is_IFrameStats h q \<Longrightarrow> mutate_all r ms h = Some h' \<Longrightarrow>
   base_fields q h' = base_fields q h \<and> derived_fields q h' = derived_fields q h"
proof (induction ms arbitrary: h)
  case Nil
  then show ?case by simp
next
  case (Cons m ms)
  from Cons.prems(3) obtain h1 where h1: "mutate r m h = Some h1" "mutate_all r ms h1 = Some h'"
    by (auto split: Option.bind_splits)
  from Cons.prems(1) have sep1: "separate h1 r q" by (simp add: mutate_separate [OF h1(1)])
  from Cons.prems(2) have wf1: "is_IFrameStats h1 q" by (simp add: mutate_wf [OF h1(1)])
  from mutate_other [OF Cons.prems(1,2) h1(1)] Cons.IH [OF sep1 wf1 h1(2)]
  show ?case by simp
qed

lemma separate_sym: "separate h r q = separate h q r"
  by (auto simp: separate_def)

lemma new_FrameStats_keeps:
  assumes "is_IFrameStats h q"
  shows "is_IFrameStats (snd (new_FrameStats h)) q"
    and "base_fields q (snd (new_FrameStats h)) = base_fields q h"
    and "derived_fields q (snd (new_FrameStats h)) = derived_fields q h"
    and "separate (snd (new_FrameStats h)) (fst (new_FrameStats h)) q"
proof -
  show wf1: "is_IFrameStats (snd (new_FrameStats h)) q"
    using assms by (simp add: new_FrameStats_def is_IFrameStats_def nth_append)
  show "base_fields q (snd (new_FrameStats h)) = base_fields q h"
    unfolding base_fields_eq [OF wf1] base_fields_eq [OF assms]
    using assms by (simp add: new_FrameStats_def is_IFrameStats_def nth_append)
  show "derived_fields q (snd (new_FrameStats h)) = derived_fields q h"
    unfolding derived_fields_eq [OF wf1] derived_fields_eq [OF assms]
    using assms by (simp add: new_FrameStats_def is_IFrameStats_def nth_append)
  show "separate (snd (new_FrameStats h)) (fst (new_FrameStats h)) q"
    using assms by (simp add: new_FrameStats_def is_IFrameStats_def separate_def nth_append)
qed

lemma reset_copy_succeeds:
  assumes "is_IFrameStats h this" and "is_IFrameStats h other"
  obtains h' where "reset this (Some other) h = Some h'"
  using reset_copy_eq [OF assms] by blast

text \<open>
  C8. For every \<open>FrameStats\<close> instance \<open>a\<close>, \<open>a.clone()\<close> succeeds and returns a new
  instance \<open>c\<close>: its reference and those of its \<open>actors\<close> and \<open>duration\<close> records are
  freshly allocated, each arena grows by exactly one object, and every object that was in
  the store before is left as it was. So \<open>c \<noteq> a\<close>. The base and derived members of \<open>c\<close>
  equal those of \<open>a\<close> at clone time. The two are independent: no sequence of member
  assignments on the clone, its \<open>actors\<close> and \<open>duration\<close> records included, changes
  what \<open>a\<close> reads, and no such sequence on \<open>a\<close> changes what the clone reads.
\<close>

theorem clone_independent:
  assumes "is_FrameStats h a"
  shows "\<exists>c h'. clone a h = Some (c, h') \<and> c \<noteq> a \<and> is_FrameStats h' c \<and>
           c = length (frames h) \<and>
           actorStats (frames h' ! c) = length (actor_objs h) \<and>
           durationStats (frames h' ! c) = length (duration_objs h) \<and>
           length (frames h') = Suc (length (frames h)) \<and>
           length (actor_objs h') = Suc (length (actor_objs h)) \<and>
           length (duration_objs h') = Suc (length (duration_objs h)) \<and>
           take (length (frames h)) (frames h') = frames h \<and>
           take (length (actor_objs h)) (actor_objs h') = actor_objs h \<and>
           take (length (duration_objs h)) (duration_objs h') = duration_objs h \<and>
           base_fields c h' = base_fields a h \<and> derived_fields c h' = derived_fields a h \<and>
           base_fields a h' = base_fields a h \<and> derived_fields a h' = derived_fields a h \<and>
           (\<forall>ms h''. mutate_all c ms h' = Some h'' \<longrightarrow>
              base_fields a h'' = base_fields a h' \<and> derived_fields a h'' = derived_fields a h') \<and>
           (\<forall>ms h''. mutate_all a ms h' = Some h'' \<longrightarrow>
              base_fields c h'' = base_fields c h' \<and> derived_fields c h'' = derived_fields c h')"
proof -
  define c where "c = fst (new_FrameStats h)"
  define h1 where "h1 = snd (new_FrameStats h)"
  have new: "new_FrameStats h = (c, h1)" by (simp add: c_def h1_def)
  from assms have wfa: "is_IFrameStats h a" by (rule is_FrameStats_wf)
  have fsc1: "is_FrameStats h1 c" unfolding c_def h1_def by (rule new_FrameStats_fresh)
  then have wfc1: "is_IFrameStats h1 c" by (rule is_FrameStats_wf)
  have fsa1: "is_FrameStats h1 a" unfolding h1_def using assms by (rule new_FrameStats_old)
  have wfa1: "is_IFrameStats h1 a" and ba1: "base_fields a h1 = base_fields a h"
    and da1: "derived_fields a h1 = derived_fields a h" and sep1: "separate h1 c a"
    unfolding c_def h1_def using new_FrameStats_keeps [OF wfa] by simp_all
  obtain h' where r: "reset c (Some a) h1 = Some h'"
    using wfc1 wfa1 by (rule reset_copy_succeeds)
  have cl: "clone a h = Some (c, h')" by (simp add: clone_def new r)
  have ne: "c \<noteq> a" using sep1 by (simp add: separate_def)
  have fsc: "is_FrameStats h' c" using fsc1 r by (rule reset_FrameStats)
  have fsa: "is_FrameStats h' a" using fsa1 r by (rule reset_FrameStats)
  have sep: "separate h' c a" using sep1 by (simp add: reset_copy_separate [OF wfc1 wfa1 r])
  have bc: "base_fields c h' = base_fields a h"
    using reset_copy_base_this [OF wfc1 wfa1 r] ba1 by simp
  have ba: "base_fields a h' = base_fields a h"
    using reset_copy_base_other [OF wfc1 wfa1 r] ba1 by simp
  have da: "derived_fields a h' = derived_fields a h"
    using reset_copy_derived_other [OF wfc1 wfa1 r] da1 by simp
  obtain i dl fp al ki u up dr where b: "base_fields a h' = Some (i, dl, fp, al, ki, u, up, dr)"
    using base_fields_eq [OF is_FrameStats_wf [OF fsa]] by blast
  have dc: "derived_fields c h' = derived_fields a h"
    using derived_from_base [OF fsa b] derived_from_base [OF fsc] b bc ba da by simp
  have ind1: "\<forall>ms h''. mutate_all c ms h' = Some h'' \<longrightarrow>
      base_fields a h'' = base_fields a h' \<and> derived_fields a h'' = derived_fields a h'"
    using mutate_all_other [OF sep is_FrameStats_wf [OF fsa]] by blast
  have sep': "separate h' a c" using sep by (simp add: separate_sym)
  have ind2: "\<forall>ms h''. mutate_all a ms h' = Some h'' \<longrightarrow>
      base_fields c h'' = base_fields c h' \<and> derived_fields c h'' = derived_fields c h'"
    using mutate_all_other [OF sep' is_FrameStats_wf [OF fsc]] by blast
  have c: "c = length (frames h)" by (simp add: c_def new_FrameStats_def)
  have h1: "frames h1 = frames h @
         [\<lparr>fid = 0, delta = 0, fps = 0,
           actorStats = length (actor_objs h), durationStats = length (duration_objs h)\<rparr>]"
    "actor_objs h1 = actor_objs h @
         [\<lparr>alive = 0, killed = 0, ui = 0, remaining_prop = Getter, total_prop = Getter\<rparr>]"
    "duration_objs h1 = duration_objs h @ [\<lparr>update = 0, draw = 0, dtotal_prop = Getter\<rparr>]"
    by (simp_all add: h1_def new_FrameStats_def)
  have refs: "actorStats (frames h' ! c) = length (actor_objs h)"
    "durationStats (frames h' ! c) = length (duration_objs h)"
    by (simp_all add: reset_copy_arenas [OF wfc1 wfa1 r] h1 c)
  have lens: "length (frames h') = Suc (length (frames h))"
    "length (actor_objs h') = Suc (length (actor_objs h))"
    "length (duration_objs h') = Suc (length (duration_objs h))"
    by (simp_all add: reset_copy_arenas [OF wfc1 wfa1 r] h1)
  have old: "take (length (frames h)) (frames h') = frames h"
    "take (length (actor_objs h)) (actor_objs h') = actor_objs h"
    "take (length (duration_objs h)) (duration_objs h') = duration_objs h"
    by (simp_all add: reset_copy_arenas [OF wfc1 wfa1 r] h1 c)
  from cl ne fsc c refs lens old bc dc ba da ind1 ind2 show ?thesis by blast
qed


text \<open>
  C10. \<open>reset(other)\<close> never reads the derived members of its argument: for two
  \<open>IFrameStats\<close> arguments that agree on the eight base members, whatever their
  \<open>remaining\<close> and \<open>total\<close> members hold, the two calls leave identical stores, and the
  receiver's derived members read what the getters compute from the copied base members.
\<close>

theorem reset_ignores_derived:
  assumes "is_FrameStats h this" and "is_IFrameStats h o1" and "is_IFrameStats h o2"
    and "base_fields o1 h = base_fields o2 h"
  shows "reset this (Some o1) h = reset this (Some o2) h \<and>
         (\<exists>h' i dl fp al ki u up dr.
            reset this (Some o1) h = Some h' \<and>
            base_fields o1 h = Some (i, dl, fp, al, ki, u, up, dr) \<and>
            base_fields this h' = Some (i, dl, fp, al, ki, u, up, dr) \<and>
            derived_fields this h' = Some (al - ki, al - ki + u, up + dr))"
proof -
  from assms(1) have wf: "is_IFrameStats h this" by (rule is_FrameStats_wf)
  from assms(4) have eq: "reset this (Some o1) h = reset this (Some o2) h"
    unfolding base_fields_eq [OF assms(2)] base_fields_eq [OF assms(3)]
    by (simp add: reset_copy_eq [OF wf assms(2)] reset_copy_eq [OF wf assms(3)])
  obtain h' where r: "reset this (Some o1) h = Some h'"
    using wf assms(2) by (rule reset_copy_succeeds)
  obtain i dl fp al ki u up dr where b: "base_fields o1 h = Some (i, dl, fp, al, ki, u, up, dr)"
    using base_fields_eq [OF assms(2)] by blast
  have b': "base_fields this h' = Some (i, dl, fp, al, ki, u, up, dr)"
    using reset_copy_base_this [OF wf assms(2) r] b by simp
  have "is_FrameStats h' this" using assms(1) r by (rule reset_FrameStats)
  then have "derived_fields this h' = Some (al - ki, al - ki + u, up + dr)"
    using b' by (rule derived_from_base)
  with eq r b b' show ?thesis by blast
qed

text \<open>
  C7, amended. For every \<open>FrameStats\<close> receiver and every \<open>IFrameStats\<close> argument,
  \<open>reset(other)\<close> succeeds, leaves \<open>other\<close> as it was and makes the receiver's base
  members equal to those of \<open>other\<close>. The receiver's derived members read what the
  getters compute from the base members of \<open>other\<close>; they equal the derived members
  of \<open>other\<close> when \<open>other\<close> is itself a \<open>FrameStats\<close> instance. When \<open>other\<close> is an
  object apart from the receiver, with \<open>actors\<close> and \<open>duration\<close> records of its own, no
  sequence of member assignments on the receiver afterwards changes what \<open>other\<close> reads.
\<close>

theorem reset_copies_other:
  assumes "is_FrameStats h this" and "is_IFrameStats h other"
  shows "\<exists>h'. reset this (Some other) h = Some h' \<and>
           base_fields this h' = base_fields other h' \<and>
           base_fields other h' = base_fields other h \<and>
           derived_fields other h' = derived_fields other h \<and>
           (\<exists>i dl fp al ki u up dr.
              base_fields other h = Some (i, dl, fp, al, ki, u, up, dr) \<and>
              derived_fields this h' = Some (al - ki, al - ki + u, up + dr)) \<and>
           (is_FrameStats h other \<longrightarrow> derived_fields this h' = derived_fields other h') \<and>
           (separate h this other \<longrightarrow>
              (\<forall>ms h''. mutate_all this ms h' = Some h'' \<longrightarrow>
                 base_fields other h'' = base_fields other h' \<and>
                 derived_fields other h'' = derived_fields other h'))"
proof -
  from assms(1) have wf: "is_IFrameStats h this" by (rule is_FrameStats_wf)
  obtain h' where r: "reset this (Some other) h = Some h'"
    using wf assms(2) by (rule reset_copy_succeeds)
  have bo: "base_fields other h' = base_fields other h"
    by (rule reset_copy_base_other [OF wf assms(2) r])
  have bt: "base_fields this h' = base_fields other h'"
    using reset_copy_base_this [OF wf assms(2) r] bo by simp
  have do: "derived_fields other h' = derived_fields other h"
    by (rule reset_copy_derived_other [OF wf assms(2) r])
  have wfo': "is_IFrameStats h' other"
    using assms(2) by (simp add: reset_copy_wf [OF wf assms(2) r])
  obtain i dl fp al ki u up dr where b: "base_fields other h = Some (i, dl, fp, al, ki, u, up, dr)"
    using base_fields_eq [OF assms(2)] by blast
  have fs': "is_FrameStats h' this" using assms(1) r by (rule reset_FrameStats)
  have dt: "derived_fields this h' = Some (al - ki, al - ki + u, up + dr)"
    using fs' bt bo b by (simp add: derived_from_base)
  have fso: "derived_fields this h' = derived_fields other h'" if "is_FrameStats h other"
  proof -
    from that r have "is_FrameStats h' other" by (rule reset_FrameStats)
    then show ?thesis using dt bo b by (simp add: derived_from_base)
  qed
  have ind: "\<forall>ms h''. mutate_all this ms h' = Some h'' \<longrightarrow>
      base_fields other h'' = base_fields other h' \<and>
      derived_fields other h'' = derived_fields other h'" if "separate h this other"
  proof -
    from that have "separate h' this other" by (simp add: reset_copy_separate [OF wf assms(2) r])
    from mutate_all_other [OF this wfo'] show ?thesis by blast
  qed
  from r bo bt do b dt fso ind show ?thesis by blast
qed

text \<open>
  C7 as stated fails for an argument that stores derived members which disagree with its
  base members: after \<open>reset\<close> the receiver reads \<open>remaining = 9 - 4\<close>, the argument still
  reads its stored 99. It also fails for an argument that shares its records with the
  receiver: an assignment to \<open>actors.alive\<close> of the receiver after \<open>reset\<close> shows in the
  argument.
\<close>

theorem reset_other_derived_counterexample:
  "is_FrameStats example_heap 0 \<and> is_IFrameStats example_heap 1 \<and>
   reset 0 (Some 1) example_heap \<bind> derived_fields 0 = Some (5, 8, 8) \<and>
   reset 0 (Some 1) example_heap \<bind> derived_fields 1 = Some (99, 100, 50) \<and>
   is_FrameStats shared_heap 0 \<and> is_IFrameStats shared_heap 1 \<and>
   reset 0 (Some 1) shared_heap \<bind> base_fields 1 = Some (8, 17, 59, 5, 2, 1, 3, 4) \<and>
   reset 0 (Some 1) shared_heap \<bind> mutate 0 (SetAlive 42) \<bind> base_fields 1
     = Some (8, 17, 59, 42, 2, 1, 3, 4)"
  by (simp add: example_heap_def shared_heap_def is_FrameStats_def is_IFrameStats_def reset_def
        base_fields_def derived_fields_def accessor_defs remaining_of_def total_of_def
        dtotal_of_def)

lemmas example_defs =
  example_heap_def is_FrameStats_def is_IFrameStats_def separate_def reset_def clone_def
  new_FrameStats_def base_fields_def derived_fields_def accessor_defs
  remaining_of_def total_of_def dtotal_of_def

text \<open>Receiver 0 and argument 2 of the example store, both \<open>FrameStats\<close> instances.\<close>

theorem reset_copies_other_witness:
  "is_FrameStats example_heap 0 \<and> is_IFrameStats example_heap 2 \<and>
   is_FrameStats example_heap 2 \<and> separate example_heap 0 2 \<and>
   reset 0 (Some 2) example_heap \<bind> base_fields 0 = Some (9, 18, 58, 12, 2, 6, 11, 13) \<and>
   reset 0 (Some 2) example_heap \<bind> derived_fields 0 = Some (10, 16, 24) \<and>
   reset 0 (Some 2) example_heap \<bind> mutate_all 0 [SetAlive 42, SetDraw 9] \<bind> base_fields 2
     = Some (9, 18, 58, 12, 2, 6, 11, 13) \<and>
   reset 0 (Some 2) example_heap \<bind> mutate_all 0 [SetAlive 42, SetDraw 9] \<bind> derived_fields 2
     = Some (10, 16, 24)"
proof -
  have fs: "is_FrameStats example_heap 0" and wf: "is_IFrameStats example_heap 2"
    and fs2: "is_FrameStats example_heap 2" and sep: "separate example_heap 0 2"
    by (simp_all add: example_defs)
  have b2: "base_fields 2 example_heap = Some (9, 18, 58, 12, 2, 6, 11, 13)"
    and d2: "derived_fields 2 example_heap = Some (10, 16, 24)"
    by (simp_all add: example_defs)
  from reset_copies_other [OF fs wf] fs2 sep obtain h' where
    r: "reset 0 (Some 2) example_heap = Some h'"
    and bt: "base_fields 0 h' = base_fields 2 h'"
    and bo: "base_fields 2 h' = base_fields 2 example_heap"
    and dd: "derived_fields 2 h' = derived_fields 2 example_heap"
    and dt: "derived_fields 0 h' = derived_fields 2 h'"
    and ind: "\<And>ms h''. mutate_all 0 ms h' = Some h'' \<Longrightarrow>
      base_fields 2 h'' = base_fields 2 h' \<and> derived_fields 2 h'' = derived_fields 2 h'"
    by blast
  have "reset 0 (Some 2) example_heap \<bind> mutate_all 0 [SetAlive 42, SetDraw 9] \<noteq> None"
    by (simp add: example_defs)
  then obtain h'' where m: "mutate_all 0 [SetAlive 42, SetDraw 9] h' = Some h''"
    using r by auto
  from ind [OF m] bo dd b2 d2 have "base_fields 2 h'' = Some (9, 18, 58, 12, 2, 6, 11, 13)"
    and "derived_fields 2 h'' = Some (10, 16, 24)" by simp_all
  with fs wf fs2 sep r m bt bo dd dt b2 d2 show ?thesis by simp
qed

text \<open>Cloning instance 0 of the example store gives the fresh reference 4.\<close>

theorem clone_independent_witness:
  "is_FrameStats example_heap 0 \<and>
   map_option fst (clone 0 example_heap) = Some 4 \<and>
   clone 0 example_heap \<bind> (\<lambda>(c, h'). Some (take 4 (frames h'))) = Some (frames example_heap) \<and>
   clone 0 example_heap \<bind> (\<lambda>(c, h'). base_fields c h') = Some (7, 16, 60, 5, 2, 1, 3, 4) \<and>
   clone 0 example_heap \<bind> (\<lambda>(c, h'). derived_fields c h') = Some (3, 4, 7) \<and>
   clone 0 example_heap \<bind> (\<lambda>(c, h'). mutate_all c [SetAlive 42, SetDraw 9] h') \<bind> base_fields 0
     = Some (7, 16, 60, 5, 2, 1, 3, 4) \<and>
   clone 0 example_heap \<bind> (\<lambda>(c, h'). mutate_all 0 [SetAlive 42, SetDraw 9] h' \<bind> base_fields c)
     = Some (7, 16, 60, 5, 2, 1, 3, 4)"
proof -
  have fs: "is_FrameStats example_heap 0" by (simp add: example_defs)
  have b0: "base_fields 0 example_heap = Some (7, 16, 60, 5, 2, 1, 3, 4)"
    and d0: "derived_fields 0 example_heap = Some (3, 4, 7)"
    by (simp_all add: example_defs)
  have len: "length (frames example_heap) = 4" by (simp add: example_heap_def)
  from clone_independent [OF fs] obtain c h' where
    cl: "clone 0 example_heap = Some (c, h')"
    and c: "c = length (frames example_heap)"
    and old: "take (length (frames example_heap)) (frames h') = frames example_heap"
    and bc: "base_fields c h' = base_fields 0 example_heap"
    and dc: "derived_fields c h' = derived_fields 0 example_heap"
    and ba: "base_fields 0 h' = base_fields 0 example_heap"
    and ind1: "\<And>ms h''. mutate_all c ms h' = Some h'' \<Longrightarrow>
      base_fields 0 h'' = base_fields 0 h' \<and> derived_fields 0 h'' = derived_fields 0 h'"
    and ind2: "\<And>ms h''. mutate_all 0 ms h' = Some h'' \<Longrightarrow>
      base_fields c h'' = base_fields c h' \<and> derived_fields c h'' = derived_fields c h'"
    by blast
  from c len have c4: "c = 4" by simp
  from old len have old4: "take 4 (frames h') = frames example_heap" by simp
  have "clone 0 example_heap \<bind> (\<lambda>(c, h'). mutate_all c [SetAlive 42, SetDraw 9] h') \<noteq> None"
    by (simp add: example_defs)
  then obtain h1 where m1: "mutate_all c [SetAlive 42, SetDraw 9] h' = Some h1"
    using cl by auto
  have "clone 0 example_heap \<bind> (\<lambda>(c, h'). mutate_all 0 [SetAlive 42, SetDraw 9] h') \<noteq> None"
    by (simp add: example_defs)
  then obtain h2 where m2: "mutate_all 0 [SetAlive 42, SetDraw 9] h' = Some h2"
    using cl by auto
  from ind1 [OF m1] ba b0 have g1: "base_fields 0 h1 = Some (7, 16, 60, 5, 2, 1, 3, 4)"
    by simp
  from ind2 [OF m2] bc b0 have g2: "base_fields c h2 = Some (7, 16, 60, 5, 2, 1, 3, 4)"
    by simp
  from fs c4 old4 m1 m2 g1 g2 bc dc b0 d0 show ?thesis
    unfolding cl by (simp del: mutate_all.simps)
qed

text \<open>A fresh instance in the example store, taken through \<open>example_ops\<close>.\<close>

theorem derived_always_computed_witness:
  "new_FrameStats example_heap = (4, snd (new_FrameStats example_heap)) \<and>
   exec_all example_ops (snd (new_FrameStats example_heap)) \<bind> base_fields 4
     = Some (8, 17, 59, 9, 4, 7, 6, 3) \<and>
   exec_all example_ops (snd (new_FrameStats example_heap)) \<bind> derived_fields 4
     = Some (5, 12, 9)"
proof -
  have new: "new_FrameStats example_heap = (4, snd (new_FrameStats example_heap))"
    by (simp add: new_FrameStats_def example_heap_def)
  have b: "exec_all example_ops (snd (new_FrameStats example_heap)) \<bind> base_fields 4
     = Some (8, 17, 59, 9, 4, 7, 6, 3)"
    by (simp add: example_ops_def example_defs)
  then obtain h' where
    r: "exec_all example_ops (snd (new_FrameStats example_heap)) = Some h'"
    by (auto split: Option.bind_splits)
  from derived_always_computed [OF new r] b r
  have "derived_fields 4 h' = Some (5, 12, 9)" by auto
  with new b r show ?thesis by simp
qed

text \<open>
  Arguments 1 and 3 of the example store: equal base members, different stored derived
  members.
\<close>

theorem reset_ignores_derived_witness:
  "is_FrameStats example_heap 0 \<and> is_IFrameStats example_heap 1 \<and>
   is_IFrameStats example_heap 3 \<and>
   base_fields 1 example_heap = base_fields 3 example_heap \<and>
   derived_fields 1 example_heap \<noteq> derived_fields 3 example_heap \<and>
   reset 0 (Some 1) example_heap = reset 0 (Some 3) example_heap \<and>
   reset 0 (Some 1) example_heap \<bind> derived_fields 0 = Some (5, 8, 8)"
proof -
  have fs: "is_FrameStats example_heap 0" and wf1: "is_IFrameStats example_heap 1"
    and wf3: "is_IFrameStats example_heap 3"
    by (simp_all add: example_defs)
  have b: "base_fields 1 example_heap = Some (8, 17, 59, 9, 4, 3, 6, 2)"
    "base_fields 3 example_heap = Some (8, 17, 59, 9, 4, 3, 6, 2)"
    by (simp_all add: example_defs)
  then have eq: "base_fields 1 example_heap = base_fields 3 example_heap" by simp
  have ne: "derived_fields 1 example_heap \<noteq> derived_fields 3 example_heap"
    by (simp add: example_defs)
  from reset_ignores_derived [OF fs wf1 wf3 eq] obtain h' i dl fp al ki u up dr where
    eq2: "reset 0 (Some 1) example_heap = reset 0 (Some 3) example_heap"
    and r: "reset 0 (Some 1) example_heap = Some h'"
    and b1: "base_fields 1 example_heap = Some (i, dl, fp, al, ki, u, up, dr)"
    and dt: "derived_fields 0 h' = Some (al - ki, al - ki + u, up + dr)"
    by blast
  from b1 b(1) dt have "derived_fields 0 h' = Some (5, 8, 8)" by simp
  with r have "reset 0 (Some 1) example_heap \<bind> derived_fields 0 = Some (5, 8, 8)" by simp
  with fs wf1 wf3 eq ne eq2 show ?thesis by simp
qed

section \<open>Properties of the texture load pipeline\<close>

lemma deliver_idle:
  assumes "fetch s \<noteq> InFlight"
    and "case image (tex s) of None \<Rightarrow> True | Some img \<Rightarrow> decoded img"
  shows "deliver A e s = Inr s"
  using assms by (cases e) (auto split: option.splits)

lemma run_idle:
  assumes "fetch s \<noteq> InFlight"
    and "case image (tex s) of None \<Rightarrow> True | Some img \<Rightarrow> decoded img"
  shows "run A es s = Inr s"
  by (induction es) (simp_all add: deliver_idle [OF assms])

lemma inv_load: "pipeline_inv (load m (Texture p b))"
  by (simp add: pipeline_inv_def untouched_def load_def Texture_def new_Image_def)

lemma inv_deliver_sum:
  assumes "pipeline_inv s"
  shows "case deliver A e s of Inl x \<Rightarrow> False | Inr s' \<Rightarrow> pipeline_inv s'"
proof (cases e)
  case (FetchSucceeded d)
  with assms show ?thesis
    by (auto simp: pipeline_inv_def untouched_def on_fetched_def new_Image_def
          split: fetch_state.splits option.splits if_splits)
next
  case FetchFailed
  with assms show ?thesis
    by (auto simp: pipeline_inv_def untouched_def on_fetch_failed_def reject_def
          split: fetch_state.splits option.splits if_splits)
next
  case (DecodeComplete w h)
  with assms show ?thesis
    by (auto simp: pipeline_inv_def untouched_def inline_onload_def fetched_onload_def
          resolve_def Let_def
          split: fetch_state.splits option.splits if_splits prod.splits)
qed

lemma inv_deliver:
  assumes "pipeline_inv s"
  shows "\<exists>s'. deliver A e s = Inr s' \<and> pipeline_inv s'"
  using inv_deliver_sum [OF assms, of A e] by (cases "deliver A e s") simp_all

lemma inv_run:
  "pipeline_inv s \<Longrightarrow> \<exists>s'. run A es s = Inr s' \<and> pipeline_inv s'"
proof (induction es arbitrary: s)
  case Nil
  then show ?case by simp
next
  case (Cons e es)
  from inv_deliver [OF Cons.prems] obtain s1 where
    s1: "deliver A e s = Inr s1" "pipeline_inv s1" by blast
  from Cons.IH [OF s1(2)] s1(1) show ?case by simp
qed

lemma path_Texture: "path (Texture p b) = p"
  by (simp add: Texture_def)

lemma inline_decode:
  assumes "indexOf p ''data:image/'' > - 1"
  shows "deliver A (DecodeComplete w h) (load m (Texture p b)) =
    Inr \<lparr>tex =
           \<lparr>path = p, bustCache = b, sprite_id = None, width = Some w, height = Some h,
            loaded = Resolved \<lparr>src = p, naturalWidth = w, naturalHeight = h, decoded = True\<rparr>,
            isLoaded_field = False,
            sprite = fst (A m ((Texture p b)
               \<lparr>image := Some \<lparr>src = p, naturalWidth = w, naturalHeight = h, decoded = True\<rparr>,
                width := Some w, height := Some h\<rparr>)),
            image = Some \<lparr>src = p, naturalWidth = w, naturalHeight = h, decoded = True\<rparr>,
            data = None\<rparr>,
          complete = Resolved \<lparr>src = p, naturalWidth = w, naturalHeight = h, decoded = True\<rparr>,
          manager = snd (A m ((Texture p b)
               \<lparr>image := Some \<lparr>src = p, naturalWidth = w, naturalHeight = h, decoded = True\<rparr>,
                width := Some w, height := Some h\<rparr>)),
          fetch = NoFetch, onload = Some InlineOnLoad\<rparr>"
  using assms
  by (simp add: load_def Texture_def new_Image_def inline_onload_def resolve_def Let_def
        split: prod.splits)

lemma fetch_failed:
  assumes "\<not> indexOf p ''data:image/'' > - 1"
  shows "deliver A FetchFailed (load m (Texture p b)) =
    Inr \<lparr>tex = Texture p b, complete = Rejected ''Error loading texture.'', manager = m,
          fetch = Failed, onload = None\<rparr>"
  using assms by (simp add: load_def path_Texture on_fetch_failed_def reject_def)

lemma inv_run_load: "\<exists>s. run A es (load m (Texture p b)) = Inr s \<and> pipeline_inv s"
  by (rule inv_run [OF inv_load])

lemma run_after_step:
  assumes "deliver A e s = Inr s'"
    and "fetch s' \<noteq> InFlight"
    and "case image (tex s') of None \<Rightarrow> True | Some img \<Rightarrow> decoded img"
  shows "run A (e # es) s = Inr s'"
  using assms(1) run_idle [OF assms(2,3), of A es] by (simp del: deliver.simps)

text \<open>
  C1. For a \<open>Texture\<close> built with a data-URI path, the claim is that after the
  decode-complete event \<open>isLoaded()\<close> is true, \<open>width\<close> and \<open>height\<close> are the natural
  dimensions of the decoded image and \<open>loaded\<close> is resolved with that image. The code
  records the dimensions and resolves both promises, but the listener of the data-URI
  branch never sets \<open>_isLoaded\<close>: at the path \<open>data:image/png;base64,AAAA\<close>, for any
  dimensions and whatever the host delivers afterwards, \<open>isLoaded()\<close> stays false.
\<close>

theorem inline_load_isLoaded_false:
  "\<exists>s. run A (DecodeComplete w h # es) (load m (Texture ''data:image/png;base64,AAAA'' b)) = Inr s \<and>
        \<not> isLoaded (tex s) \<and> width (tex s) = Some w \<and> height (tex s) = Some h \<and>
        loaded (tex s) = Resolved \<lparr>src = ''data:image/png;base64,AAAA'', naturalWidth = w,
                                   naturalHeight = h, decoded = True\<rparr> \<and>
        complete s = Resolved \<lparr>src = ''data:image/png;base64,AAAA'', naturalWidth = w,
                                naturalHeight = h, decoded = True\<rparr>"
proof -
  have p: "indexOf ''data:image/png;base64,AAAA'' ''data:image/'' > - 1"
    by (simp add: indexOf_def)
  show ?thesis
    by (simp add: run_after_step [OF inline_decode [OF p]] isLoaded_def del: run.simps)
qed

text \<open>
  C2, amended. For every \<open>Texture\<close> with a data-URI path, the decode-complete event calls
  \<open>loadIntoAtlas\<close> of the atlas manager once, on the texture with its image decoded and
  its width and height recorded; the sprite it returns is what \<open>asSprite()\<close> returns from
  then on, whatever the host delivers afterwards. The data-URI branch does not bypass the
  atlas manager. Nothing is said about the fetched branch.
\<close>

theorem inline_load_uses_atlas:
  assumes "indexOf p ''data:image/'' > - 1"
  shows "\<exists>s. run A (DecodeComplete w h # es) (load m (Texture p b)) = Inr s \<and>
     asSprite (tex s) = fst (A m ((Texture p b)
        \<lparr>image := Some \<lparr>src = p, naturalWidth = w, naturalHeight = h, decoded = True\<rparr>,
         width := Some w, height := Some h\<rparr>)) \<and>
     manager s = snd (A m ((Texture p b)
        \<lparr>image := Some \<lparr>src = p, naturalWidth = w, naturalHeight = h, decoded = True\<rparr>,
         width := Some w, height := Some h\<rparr>))"
  by (simp add: run_after_step [OF inline_decode [OF assms]] asSprite_def del: run.simps)

text \<open>The path \<open>data:image/png;base64,AAAA\<close> with the counting atlas manager.\<close>

theorem inline_load_uses_atlas_witness:
  "indexOf ''data:image/png;base64,AAAA'' ''data:image/'' > - 1 \<and>
   (\<exists>s. run example_atlas [DecodeComplete 3 4, DecodeComplete 5 6, FetchFailed]
          (load 0 (Texture ''data:image/png;base64,AAAA'' True)) = Inr s \<and>
        asSprite (tex s) = ManagedSprite (Some 0) (Some 3) (Some 4) None None None \<and>
        manager s = 1)"
proof -
  have p: "indexOf ''data:image/png;base64,AAAA'' ''data:image/'' > - 1"
    by (simp add: indexOf_def)
  from inline_load_uses_atlas [OF p, of example_atlas 3 4 "[DecodeComplete 5 6, FetchFailed]" 0 True]
  show ?thesis using p by (simp add: example_atlas_def Texture_def)
qed

text \<open>
  C2 as stated fails on both branches. A fetched texture decodes and resolves its promises
  while the atlas manager has served no call and \<open>asSprite()\<close> is still the placeholder;
  a data-URI texture does go through the atlas manager, which has then served one call.
\<close>

theorem atlas_branches_counterexample:
  "run example_atlas [FetchSucceeded ''blob:1'', DecodeComplete 3 4]
     (load 0 (Texture ''http://x/a.png'' True)) =
   Inr \<lparr>tex =
          \<lparr>path = ''http://x/a.png'', bustCache = True, sprite_id = None,
           width = Some 3, height = Some 4,
           loaded = Resolved \<lparr>src = ''blob:1'', naturalWidth = 3, naturalHeight = 4,
                              decoded = True\<rparr>,
           isLoaded_field = True,
           sprite = ManagedSprite None None None None None None,
           image = Some \<lparr>src = ''blob:1'', naturalWidth = 3, naturalHeight = 4, decoded = True\<rparr>,
           data = Some ''blob:1''\<rparr>,
         complete = Resolved \<lparr>src = ''blob:1'', naturalWidth = 3, naturalHeight = 4,
                              decoded = True\<rparr>,
         manager = 0, fetch = Succeeded, onload = Some FetchedOnLoad\<rparr> \<and>
   run example_atlas [DecodeComplete 3 4]
     (load 0 (Texture ''data:image/png;base64,AAAA'' True)) =
   Inr \<lparr>tex =
          \<lparr>path = ''data:image/png;base64,AAAA'', bustCache = True, sprite_id = None,
           width = Some 3, height = Some 4,
           loaded = Resolved \<lparr>src = ''data:image/png;base64,AAAA'', naturalWidth = 3,
                              naturalHeight = 4, decoded = True\<rparr>,
           isLoaded_field = False,
           sprite = ManagedSprite (Some 0) (Some 3) (Some 4) None None None,
           image = Some \<lparr>src = ''data:image/png;base64,AAAA'', naturalWidth = 3,
                          naturalHeight = 4, decoded = True\<rparr>,
           data = None\<rparr>,
         complete = Resolved \<lparr>src = ''data:image/png;base64,AAAA'', naturalWidth = 3,
                              naturalHeight = 4, decoded = True\<rparr>,
         manager = 1, fetch = NoFetch, onload = Some InlineOnLoad\<rparr>"
  by (simp add: load_def Texture_def indexOf_def new_Image_def on_fetched_def
        inline_onload_def fetched_onload_def resolve_def example_atlas_def)

lemma fetched_decode:
  assumes "\<not> indexOf p ''data:image/'' > - 1"
  shows "run A (FetchSucceeded d # DecodeComplete w h # es) (load m (Texture p b)) =
    Inr \<lparr>tex =
           \<lparr>path = p, bustCache = b, sprite_id = None, width = Some w, height = Some h,
            loaded = Resolved \<lparr>src = d, naturalWidth = w, naturalHeight = h, decoded = True\<rparr>,
            isLoaded_field = True,
            sprite = ManagedSprite None None None None None None,
            image = Some \<lparr>src = d, naturalWidth = w, naturalHeight = h, decoded = True\<rparr>,
            data = Some d\<rparr>,
          complete = Resolved \<lparr>src = d, naturalWidth = w, naturalHeight = h, decoded = True\<rparr>,
          manager = m, fetch = Succeeded, onload = Some FetchedOnLoad\<rparr>"
proof -
  have 1: "deliver A (FetchSucceeded d) (load m (Texture p b)) =
    Inr \<lparr>tex = (Texture p b)\<lparr>image := Some \<lparr>src = d, naturalWidth = 0, naturalHeight = 0,
                                              decoded = False\<rparr>, data := Some d\<rparr>,
          complete = Pending, manager = m, fetch = Succeeded, onload = Some FetchedOnLoad\<rparr>"
    using assms by (simp add: load_def path_Texture on_fetched_def new_Image_def Texture_def)
  have 2: "deliver A (DecodeComplete w h)
     \<lparr>tex = (Texture p b)\<lparr>image := Some \<lparr>src = d, naturalWidth = 0, naturalHeight = 0,
                                              decoded = False\<rparr>, data := Some d\<rparr>,
          complete = Pending, manager = m, fetch = Succeeded, onload = Some FetchedOnLoad\<rparr> =
    Inr \<lparr>tex =
           \<lparr>path = p, bustCache = b, sprite_id = None, width = Some w, height = Some h,
            loaded = Resolved \<lparr>src = d, naturalWidth = w, naturalHeight = h, decoded = True\<rparr>,
            isLoaded_field = True,
            sprite = ManagedSprite None None None None None None,
            image = Some \<lparr>src = d, naturalWidth = w, naturalHeight = h, decoded = True\<rparr>,
            data = Some d\<rparr>,
          complete = Resolved \<lparr>src = d, naturalWidth = w, naturalHeight = h, decoded = True\<rparr>,
          manager = m, fetch = Succeeded, onload = Some FetchedOnLoad\<rparr>"
    by (simp add: Texture_def fetched_onload_def resolve_def Let_def)
  show ?thesis
    unfolding run.simps(2) [of A "FetchSucceeded d"] 1 sum.case
    by (rule run_after_step [OF 2]) simp_all
qed

text \<open>
  C3, amended. For every \<open>Texture\<close>: on the data-URI branch the decode-complete event
  resolves the promise returned by \<open>load()\<close> and \<open>loaded\<close> with the same decoded image;
  on the fetched branch a successful fetch followed by the decode-complete event does the
  same; and a failed fetch rejects the promise returned by \<open>load()\<close> with
  \<open>Error loading texture.\<close> while \<open>loaded\<close> stays pending. Each of these holds whatever the
  host delivers afterwards. Conversely, whatever the host delivers after \<open>load()\<close>, the
  callbacks run without error and the two promises are in one of these relations: both
  pending; both resolved with the same decoded image, which is \<open>this.image\<close>; or the
  fetch failed, the returned promise is rejected and \<open>loaded\<close> is pending.
\<close>

theorem load_outcomes:
  "(\<exists>s. run A es (load m (Texture p b)) = Inr s \<and>
      (case complete s of
         Pending \<Rightarrow> loaded (tex s) = Pending
       | Resolved img \<Rightarrow> loaded (tex s) = Resolved img \<and> image (tex s) = Some img \<and> decoded img
       | Rejected e \<Rightarrow>
           e = ''Error loading texture.'' \<and> fetch s = Failed \<and> loaded (tex s) = Pending)) \<and>
   (indexOf p ''data:image/'' > - 1 \<longrightarrow>
      (\<exists>s. run A (DecodeComplete w h # es) (load m (Texture p b)) = Inr s \<and>
         complete s = Resolved \<lparr>src = p, naturalWidth = w, naturalHeight = h, decoded = True\<rparr> \<and>
         loaded (tex s) = Resolved \<lparr>src = p, naturalWidth = w, naturalHeight = h, decoded = True\<rparr>)) \<and>
   (\<not> indexOf p ''data:image/'' > - 1 \<longrightarrow>
      (\<exists>s. run A (FetchSucceeded d # DecodeComplete w h # es) (load m (Texture p b)) = Inr s \<and>
         complete s = Resolved \<lparr>src = d, naturalWidth = w, naturalHeight = h, decoded = True\<rparr> \<and>
         loaded (tex s) = Resolved \<lparr>src = d, naturalWidth = w, naturalHeight = h, decoded = True\<rparr>) \<and>
      (\<exists>s. run A (FetchFailed # es) (load m (Texture p b)) = Inr s \<and>
         complete s = Rejected ''Error loading texture.'' \<and> loaded (tex s) = Pending))"
proof (intro conjI impI)
  from inv_run_load [of A es m p b] obtain s where
    s: "run A es (load m (Texture p b)) = Inr s" "pipeline_inv s" by blast
  from s(2) have
    "case complete s of
        Pending \<Rightarrow> loaded (tex s) = Pending
      | Resolved img \<Rightarrow> loaded (tex s) = Resolved img \<and> image (tex s) = Some img \<and> decoded img
      | Rejected e \<Rightarrow>
          e = ''Error loading texture.'' \<and> fetch s = Failed \<and> loaded (tex s) = Pending"
    by (auto simp: pipeline_inv_def untouched_def
          split: fetch_state.splits option.splits if_splits promise.splits)
  with s(1) show "\<exists>s. run A es (load m (Texture p b)) = Inr s \<and>
      (case complete s of
         Pending \<Rightarrow> loaded (tex s) = Pending
       | Resolved img \<Rightarrow> loaded (tex s) = Resolved img \<and> image (tex s) = Some img \<and> decoded img
       | Rejected e \<Rightarrow>
           e = ''Error loading texture.'' \<and> fetch s = Failed \<and> loaded (tex s) = Pending)"
    by blast
next
  assume p: "indexOf p ''data:image/'' > - 1"
  show "\<exists>s. run A (DecodeComplete w h # es) (load m (Texture p b)) = Inr s \<and>
         complete s = Resolved \<lparr>src = p, naturalWidth = w, naturalHeight = h, decoded = True\<rparr> \<and>
         loaded (tex s) = Resolved \<lparr>src = p, naturalWidth = w, naturalHeight = h, decoded = True\<rparr>"
    by (simp add: run_after_step [OF inline_decode [OF p]] del: run.simps)
next
  assume p: "\<not> indexOf p ''data:image/'' > - 1"
  show "\<exists>s. run A (FetchSucceeded d # DecodeComplete w h # es) (load m (Texture p b)) = Inr s \<and>
         complete s = Resolved \<lparr>src = d, naturalWidth = w, naturalHeight = h, decoded = True\<rparr> \<and>
         loaded (tex s) = Resolved \<lparr>src = d, naturalWidth = w, naturalHeight = h, decoded = True\<rparr>"
    unfolding fetched_decode [OF p] by simp
next
  assume p: "\<not> indexOf p ''data:image/'' > - 1"
  have r: "run A (FetchFailed # es) (load m (Texture p b)) =
    Inr \<lparr>tex = Texture p b, complete = Rejected ''Error loading texture.'', manager = m,
          fetch = Failed, onload = None\<rparr>"
    by (rule run_after_step [OF fetch_failed [OF p]]) (simp_all add: Texture_def)
  show "\<exists>s. run A (FetchFailed # es) (load m (Texture p b)) = Inr s \<and>
         complete s = Rejected ''Error loading texture.'' \<and> loaded (tex s) = Pending"
    unfolding r by (simp add: Texture_def)
qed

text \<open>
  The path \<open>data:image/png;base64,AAAA\<close> for the data-URI branch and \<open>http://x/a.png\<close> for
  the fetched branch, each with one more event after the outcome.
\<close>

theorem load_outcomes_witness:
  "indexOf ''data:image/png;base64,AAAA'' ''data:image/'' > - 1 \<and>
   (\<exists>s. run example_atlas [DecodeComplete 3 4, FetchFailed]
          (load 0 (Texture ''data:image/png;base64,AAAA'' True)) = Inr s \<and>
      complete s = Resolved \<lparr>src = ''data:image/png;base64,AAAA'', naturalWidth = 3,
                              naturalHeight = 4, decoded = True\<rparr> \<and>
      loaded (tex s) = Resolved \<lparr>src = ''data:image/png;base64,AAAA'', naturalWidth = 3,
                                 naturalHeight = 4, decoded = True\<rparr>) \<and>
   \<not> indexOf ''http://x/a.png'' ''data:image/'' > - 1 \<and>
   (\<exists>s. run example_atlas [FetchSucceeded ''blob:1'', DecodeComplete 3 4, FetchFailed]
          (load 0 (Texture ''http://x/a.png'' True)) = Inr s \<and>
      complete s = Resolved \<lparr>src = ''blob:1'', naturalWidth = 3, naturalHeight = 4,
                              decoded = True\<rparr> \<and>
      loaded (tex s) = Resolved \<lparr>src = ''blob:1'', naturalWidth = 3, naturalHeight = 4,
                                 decoded = True\<rparr>) \<and>
   (\<exists>s. run example_atlas [FetchFailed, FetchFailed]
          (load 0 (Texture ''http://x/a.png'' True)) = Inr s \<and>
      complete s = Rejected ''Error loading texture.'' \<and> loaded (tex s) = Pending)"
proof -
  have p1: "indexOf ''data:image/png;base64,AAAA'' ''data:image/'' > - 1"
    by (simp add: indexOf_def)
  have p2: "\<not> indexOf ''http://x/a.png'' ''data:image/'' > - 1"
    by (simp add: indexOf_def)
  from load_outcomes [of example_atlas "[FetchFailed]" 0 "''data:image/png;base64,AAAA''" True 3 4
      "''blob:1''"] p1
  have a: "\<exists>s. run example_atlas [DecodeComplete 3 4, FetchFailed]
          (load 0 (Texture ''data:image/png;base64,AAAA'' True)) = Inr s \<and>
      complete s = Resolved \<lparr>src = ''data:image/png;base64,AAAA'', naturalWidth = 3,
                              naturalHeight = 4, decoded = True\<rparr> \<and>
      loaded (tex s) = Resolved \<lparr>src = ''data:image/png;base64,AAAA'', naturalWidth = 3,
                                 naturalHeight = 4, decoded = True\<rparr>"
    by blast
  from load_outcomes [of example_atlas "[FetchFailed]" 0 "''http://x/a.png''" True 3 4
      "''blob:1''"] p2
  have b: "(\<exists>s. run example_atlas [FetchSucceeded ''blob:1'', DecodeComplete 3 4, FetchFailed]
          (load 0 (Texture ''http://x/a.png'' True)) = Inr s \<and>
      complete s = Resolved \<lparr>src = ''blob:1'', naturalWidth = 3, naturalHeight = 4,
                              decoded = True\<rparr> \<and>
      loaded (tex s) = Resolved \<lparr>src = ''blob:1'', naturalWidth = 3, naturalHeight = 4,
                                 decoded = True\<rparr>) \<and>
   (\<exists>s. run example_atlas [FetchFailed, FetchFailed]
          (load 0 (Texture ''http://x/a.png'' True)) = Inr s \<and>
      complete s = Rejected ''Error loading texture.'' \<and> loaded (tex s) = Pending)"
    by blast
  from p1 p2 a b show ?thesis by blast
qed

text \<open>
  C3 as stated fails when the fetch fails: the promise returned by \<open>load()\<close> is rejected,
  \<open>loaded\<close> is not.
\<close>

theorem failed_fetch_loaded_pending_counterexample:
  "run example_atlas [FetchFailed] (load 0 (Texture ''http://x/missing.png'' True)) =
   Inr \<lparr>tex =
          \<lparr>path = ''http://x/missing.png'', bustCache = True, sprite_id = None,
           width = None, height = None, loaded = Pending, isLoaded_field = False,
           sprite = ManagedSprite None None None None None None,
           image = None, data = None\<rparr>,
         complete = Rejected ''Error loading texture.'',
         manager = 0, fetch = Failed, onload = None\<rparr>"
  by (simp add: load_def Texture_def indexOf_def on_fetch_failed_def reject_def)

text \<open>
  C4. For every \<open>Texture\<close> whose path is not a data URI and whose fetch fails, the promise
  returned by \<open>load()\<close> is rejected with \<open>Error loading texture.\<close>, and whatever the host
  delivers afterwards \<open>isLoaded()\<close> is false, \<open>width\<close> and \<open>height\<close> are unassigned and
  \<open>asSprite()\<close> is the placeholder: the texture is as the constructor left it.
\<close>

theorem fetch_failure_rejects:
  assumes "\<not> indexOf p ''data:image/'' > - 1"
  shows "\<exists>s. run A (FetchFailed # es) (load m (Texture p b)) = Inr s \<and>
     complete s = Rejected ''Error loading texture.'' \<and>
     \<not> isLoaded (tex s) \<and> width (tex s) = None \<and> height (tex s) = None \<and>
     asSprite (tex s) = ManagedSprite None None None None None None \<and>
     tex s = Texture p b"
proof -
  have r: "run A (FetchFailed # es) (load m (Texture p b)) =
    Inr \<lparr>tex = Texture p b, complete = Rejected ''Error loading texture.'', manager = m,
          fetch = Failed, onload = None\<rparr>"
    by (rule run_after_step [OF fetch_failed [OF assms]]) (simp_all add: Texture_def)
  show ?thesis
    unfolding r by (simp add: Texture_def isLoaded_def asSprite_def)
qed

text \<open>The path \<open>http://x/missing.png\<close>, with two more events after the failure.\<close>

theorem fetch_failure_rejects_witness:
  "\<not> indexOf ''http://x/missing.png'' ''data:image/'' > - 1 \<and>
   (\<exists>s. run example_atlas [FetchFailed, DecodeComplete 3 4, FetchSucceeded ''late'']
          (load 0 (Texture ''http://x/missing.png'' True)) = Inr s \<and>
        complete s = Rejected ''Error loading texture.'' \<and>
        isLoaded (tex s) = False \<and> width (tex s) = None \<and> height (tex s) = None \<and>
        asSprite (tex s) = ManagedSprite None None None None None None)"
proof -
  have p: "\<not> indexOf ''http://x/missing.png'' ''data:image/'' > - 1"
    by (simp add: indexOf_def)
  from fetch_failure_rejects [OF p, of example_atlas "[DecodeComplete 3 4, FetchSucceeded ''late'']" 0 True]
  show ?thesis using p by auto
qed

text \<open>
  C5. \<open>asSprite()\<close> is a plain read of \<open>_sprite\<close>. For every \<open>Texture\<close> it returns the
  placeholder with six null fields right after construction, and, after \<open>load()\<close> and
  whatever the host has delivered so far, as long as loading has not completed, that is,
  as long as \<open>loaded\<close> is pending.
\<close>

theorem asSprite_placeholder_before_ready:
  "asSprite (Texture p b) = ManagedSprite None None None None None None \<and>
   (\<exists>s. run A es (load m (Texture p b)) = Inr s \<and>
        (loaded (tex s) = Pending \<longrightarrow>
           asSprite (tex s) = ManagedSprite None None None None None None))"
proof -
  from inv_run_load [of A es m p b] obtain s where
    s: "run A es (load m (Texture p b)) = Inr s" "pipeline_inv s" by blast
  from s(2) have "loaded (tex s) = Pending \<longrightarrow>
      asSprite (tex s) = ManagedSprite None None None None None None"
    by (auto simp: pipeline_inv_def untouched_def asSprite_def
          split: fetch_state.splits option.splits if_splits)
  with s(1) show ?thesis by (auto simp: asSprite_def Texture_def)
qed

text \<open>A fetched texture whose payload has arrived and whose image is still decoding.\<close>

theorem asSprite_placeholder_before_ready_witness:
  "\<exists>s. run example_atlas [FetchSucceeded ''blob:1'']
          (load 0 (Texture ''http://x/a.png'' True)) = Inr s \<and>
        loaded (tex s) = Pending \<and>
        asSprite (tex s) = ManagedSprite None None None None None None"
proof -
  from asSprite_placeholder_before_ready
    [of "''http://x/a.png''" True example_atlas "[FetchSucceeded ''blob:1'']" 0]
  obtain s where s: "run example_atlas [FetchSucceeded ''blob:1'']
          (load 0 (Texture ''http://x/a.png'' True)) = Inr s"
    and imp: "loaded (tex s) = Pending \<longrightarrow>
           asSprite (tex s) = ManagedSprite None None None None None None"
    by blast
  from s have "loaded (tex s) = Pending"
    by (auto simp: load_def Texture_def indexOf_def on_fetched_def new_Image_def)
  with s imp show ?thesis by blast
qed

end
